theory Spec2Isabelle
  imports Complex_Main "HOL-Library.Word" "HOL-Library.AList"
begin

section \<open>Bytes, text and errors\<close>

text \<open>
  The converter writes WPS intermediate files. A file is a byte stream, a byte an 8-bit
  word. A Python \<open>str\<close> is a sequence of Unicode code points, so it is a list of
  naturals here (a HOL \<open>char\<close> is one byte only). Python floats are idealised as reals:
  rounding is left to the two library functions that make 32-bit floats (see
  \<open>numlib\<close>); a missing grid value (NaN) is \<open>None\<close>.

  Every exception the source can raise is a value of \<open>error\<close>. \<open>TooLargeForArray\<close> is
  numpy's refusal of a \<open>bytes\<close> object too long for a string item (a \<open>TypeError\<close> or a
  \<open>MemoryError\<close>, by numpy version).
\<close>

type_synonym byte = "8 word"

type_synonym pystr = "nat list"

datatype error =
    UnicodeEncodeError
  | StructError
  | OverflowError
  | IndexError
  | AttributeError
  | KeyError
  | TypeError
  | ValueError string
  | TooLargeForArray

definition ustr :: "string \<Rightarrow> pystr" where
  "ustr s = map of_char s"

text \<open>Sequencing of steps that may raise.\<close>

definition ebind :: "error + 'a \<Rightarrow> ('a \<Rightarrow> error + 'b) \<Rightarrow> error + 'b" where
  "ebind m f = (case m of Inl e \<Rightarrow> Inl e | Inr x \<Rightarrow> f x)"

section \<open>struct.pack, big-endian\<close>

definition be32 :: "32 word \<Rightarrow> byte list" where
  "be32 w = [ucast (drop_bit 24 w), ucast (drop_bit 16 w), ucast (drop_bit 8 w), ucast w]"

text \<open>\<open>struct.pack(">i", n)\<close>: four bytes, two's complement; \<open>struct.error\<close> outside
  the signed 32-bit range.\<close>

definition pack_i :: "int \<Rightarrow> error + byte list" where
  "pack_i n = (if - (2 ^ 31) \<le> n \<and> n < 2 ^ 31 then Inr (be32 (word_of_int n)) else Inl StructError)"

text \<open>\<open>struct.unpack(">i", bs)\<close> on four bytes, the reader's side of a length marker.\<close>

definition unpack_i :: "byte list \<Rightarrow> int" where
  "unpack_i bs =
     (let u = uint (bs ! 0) * 2 ^ 24 + uint (bs ! 1) * 2 ^ 16 + uint (bs ! 2) * 2 ^ 8 + uint (bs ! 3)
      in if u < 2 ^ 31 then u else u - 2 ^ 32)"

section \<open>write_fortran_record\<close>

text \<open>
  The argument of \<open>write_fortran_record\<close> is either a \<open>bytes\<close> object (the result of
  \<open>struct.pack\<close>) or the two-dimensional \<open>>f4\<close> array of the slab, given by its shape
  and its elements (already 32-bit patterns). \<open>np.array\<close> turns a \<open>bytes\<close> object into a
  zero-dimensional array of dtype \<open>S<n>\<close>, whose buffer is the \<open>n\<close> bytes; numpy has no
  zero-width string dtype for a new array, so the empty \<open>bytes\<close> object becomes \<open>S1\<close>: one
  NUL byte. The item size of a string dtype is a C \<open>int\<close>, so \<open>np.array\<close> refuses a
  \<open>bytes\<close> object of \<open>2^31\<close> bytes or more. \<open>tobytes(order="F")\<close> runs the first index
  fastest.
\<close>

datatype npdata = PyBytes "byte list" | NdF4 nat nat "nat \<Rightarrow> nat \<Rightarrow> 32 word"

fun np_array :: "npdata \<Rightarrow> error + npdata" where
  "np_array (PyBytes b) = (if length b < 2 ^ 31 then Inr (PyBytes b) else Inl TooLargeForArray)"
| "np_array (NdF4 n0 n1 a) = Inr (NdF4 n0 n1 a)"

fun np_nbytes :: "npdata \<Rightarrow> nat" where
  "np_nbytes (PyBytes b) = max 1 (length b)"
| "np_nbytes (NdF4 n0 n1 a) = 4 * (n0 * n1)"

fun tobytes_F :: "npdata \<Rightarrow> byte list" where
  "tobytes_F (PyBytes b) = (if b = [] then [0] else b)"
| "tobytes_F (NdF4 n0 n1 a) =
     concat (map (\<lambda>j. concat (map (\<lambda>i. be32 (a i j)) [0..<n0])) [0..<n1])"

text \<open>The file object is its content so far. \<open>np.array\<close> comes first and may refuse
  its argument; both length markers pack the same \<open>nbytes\<close>, so the first
  \<open>struct.pack\<close> is the only other failure. Both happen before anything is written.\<close>

definition write_fortran_record :: "byte list \<Rightarrow> npdata \<Rightarrow> error + byte list" where
  "write_fortran_record fp data =
     ebind (np_array data) (\<lambda>data.
       (let nbytes = np_nbytes data in
        ebind (pack_i (int nbytes)) (\<lambda>marker.
          Inr (fp @ marker @ tobytes_F data @ marker))))"

text \<open>Reading a record back, in the words of the format: a leading length \<open>L\<close>, then
  \<open>L\<close> bytes, then a trailing length.\<close>

definition read_fortran_record :: "byte list \<Rightarrow> int \<times> byte list \<times> int" where
  "read_fortran_record bs =
     (let L = unpack_i (take 4 bs)
      in (L, take (nat L) (drop 4 bs), unpack_i (take 4 (drop (4 + nat L) bs))))"

section \<open>pad\<close>

definition ljust :: "pystr \<Rightarrow> nat \<Rightarrow> pystr" where
  "ljust s n = s @ replicate (n - length s) 32"

definition encode_ascii :: "pystr \<Rightarrow> error + byte list" where
  "encode_ascii s =
     (if list_all (\<lambda>c. c < 128) s then Inr (map of_nat s) else Inl UnicodeEncodeError)"

definition pad :: "pystr \<Rightarrow> nat \<Rightarrow> error + byte list" where
  "pad s n = encode_ascii (take n (ljust s n))"

section \<open>Library functions taken as parameters\<close>

text \<open>
  A two-dimensional field is indexed by latitude index, then longitude index.
  Two functions belong to numpy, xarray and scipy and are parameters of the model:
  \<open>round_f4\<close>, the IEEE-754 single-precision pattern nearest to a finite value (the cast
  done by \<open>struct.pack(">f", x)\<close> and by \<open>astype(">f4")\<close>), and \<open>interpolate_na\<close>, the
  linear fill of missing values along one axis, given the two coordinate vectors.
\<close>

type_synonym grid = "nat \<Rightarrow> nat \<Rightarrow> real option"

datatype axis = Lat | Lon

record numlib =
  round_f4 :: "real \<Rightarrow> 32 word"
  interpolate_na :: "axis \<Rightarrow> real list \<Rightarrow> real list \<Rightarrow> grid \<Rightarrow> grid"

text \<open>\<open>struct.pack(">f", x)\<close> raises \<open>OverflowError\<close> when the cast of a finite \<open>x\<close> is
  infinite, that is from \<open>2^128 - 2^103\<close> on in magnitude.\<close>

definition pack_f :: "numlib \<Rightarrow> real \<Rightarrow> error + byte list" where
  "pack_f lib x =
     (if \<bar>x\<bar> < 2 ^ 128 - 2 ^ 103 then Inr (be32 (round_f4 lib x)) else Inl OverflowError)"

text \<open>\<open>astype(">f4")\<close> on one element: a missing value stays NaN.\<close>

definition astype_f4 :: "numlib \<Rightarrow> real option \<Rightarrow> 32 word" where
  "astype_f4 lib v = (case v of None \<Rightarrow> 0x7FC00000 | Some x \<Rightarrow> round_f4 lib x)"

text \<open>The format characters of the two big-endian formats in use, and the Python
  values handed to \<open>struct.pack\<close>. An array stands for a float only when it has one
  element.\<close>

datatype fmt = Fs nat | Ff | Fi

datatype pyval = VBytes "byte list" | VFloat real | VInt int | VArray "real list"

fun pack_field :: "numlib \<Rightarrow> fmt \<Rightarrow> pyval \<Rightarrow> error + byte list" where
  "pack_field lib (Fs n) (VBytes b) = Inr (take n b @ replicate (n - length b) 0)"
| "pack_field lib Ff (VFloat x) = pack_f lib x"
| "pack_field lib Ff (VInt n) = pack_f lib (of_int n)"
| "pack_field lib Ff (VArray [x]) = pack_f lib x"
| "pack_field lib Fi (VInt n) = pack_i n"
| "pack_field lib _ _ = Inl StructError"

fun struct_pack :: "numlib \<Rightarrow> fmt list \<Rightarrow> pyval list \<Rightarrow> error + byte list" where
  "struct_pack lib [] [] = Inr []"
| "struct_pack lib (f # fs) (v # vs) =
     ebind (pack_field lib f v) (\<lambda>b. ebind (struct_pack lib fs vs) (\<lambda>bs. Inr (b @ bs)))"
| "struct_pack lib _ _ = Inl StructError"

section \<open>Time stamps\<close>

text \<open>
  A \<open>pd.Timestamp\<close> is a count of seconds since 1970-01-01 00:00 (pandas counts
  nanoseconds; nothing here depends on the finer unit), a \<open>pd.Timedelta\<close> a positive
  number of seconds. \<open>strftime\<close> needs the Gregorian date of a day number; pandas
  time stamps lie between the years 1677 and 2262, so a year has four digits.
\<close>

definition civil_from_days :: "int \<Rightarrow> int \<times> int \<times> int" where
  "civil_from_days z0 =
     (let z = z0 + 719468;
          era = z div 146097;
          doe = z - era * 146097;
          yoe = (doe - doe div 1460 + doe div 36524 - doe div 146096) div 365;
          doy = doe - (365 * yoe + yoe div 4 - yoe div 100);
          mp = (5 * doy + 2) div 153;
          d = doy - (153 * mp + 2) div 5 + 1;
          m = (if mp < 10 then mp + 3 else mp - 9);
          y = yoe + era * 400
      in (if m \<le> 2 then y + 1 else y, m, d))"

definition dec2 :: "int \<Rightarrow> pystr" where
  "dec2 n = [48 + nat (n div 10 mod 10), 48 + nat (n mod 10)]"

definition dec4 :: "int \<Rightarrow> pystr" where
  "dec4 n = [48 + nat (n div 1000 mod 10), 48 + nat (n div 100 mod 10),
             48 + nat (n div 10 mod 10), 48 + nat (n mod 10)]"

text \<open>\<open>time.strftime('%Y-%m-%d_%H')\<close>\<close>

definition strftime_ymdh :: "int \<Rightarrow> pystr" where
  "strftime_ymdh t =
     (case civil_from_days (t div 86400) of
        (y, m, d) \<Rightarrow> dec4 y @ ustr ''-'' @ dec2 m @ ustr ''-'' @ dec2 d @ ustr ''_''
                     @ dec2 (t mod 86400 div 3600))"

text \<open>\<open>pd.date_range(start_date, end_date, freq=interval)\<close> for a positive interval.\<close>

definition date_range :: "int \<Rightarrow> int \<Rightarrow> int \<Rightarrow> int list" where
  "date_range start_date end_date interval =
     (if end_date < start_date then []
      else map (\<lambda>k. start_date + int k * interval)
             [0..<nat ((end_date - start_date) div interval + 1)])"

section \<open>DataArray and FileInventory\<close>

text \<open>
  An \<open>xr.DataArray\<close> over latitude and longitude, with a time and a pressure-level
  coordinate that are each absent, a scalar (after \<open>isel\<close>) or a dimension of the array.
  \<open>da_values d t p\<close> is the field at time index \<open>t\<close> and level index \<open>p\<close>; an index along
  a coordinate that is not a dimension is ignored. The attributes are a dictionary of
  strings.
\<close>

datatype 'a coord = Absent | Scalar 'a | Axis "'a list"

record dataarray =
  da_time :: "int coord"
  da_plev :: "real coord"
  da_lat :: "real list"
  da_lon :: "real list"
  da_values :: "nat \<Rightarrow> nat \<Rightarrow> grid"
  da_attrs :: "(pystr \<times> pystr) list"

text \<open>Attribute-style access \<open>data.name\<close> falls back on the attribute dictionary.\<close>

definition getattr :: "dataarray \<Rightarrow> string \<Rightarrow> error + pystr" where
  "getattr data name =
     (case map_of (da_attrs data) (ustr name) of None \<Rightarrow> Inl AttributeError | Some v \<Rightarrow> Inr v)"

text \<open>\<open>seq[i]\<close> on a coordinate vector.\<close>

definition item :: "'a list \<Rightarrow> nat \<Rightarrow> error + 'a" where
  "item xs i = (if i < length xs then Inr (xs ! i) else Inl IndexError)"

text \<open>The class \<open>FileInventory\<close>: a dictionary from file name to open file, in insertion
  order; a file is its content. \<open>open(filename, "wb")\<close> starts an empty file.\<close>

type_synonym file_inventory = "(pystr \<times> byte list) list"

definition get :: "file_inventory \<Rightarrow> pystr \<Rightarrow> file_inventory" where
  "get files filename =
     (if map_of files filename = None then files @ [(filename, [])] else files)"

definition content :: "file_inventory \<Rightarrow> pystr \<Rightarrow> byte list" where
  "content files filename = (case map_of files filename of None \<Rightarrow> [] | Some fp \<Rightarrow> fp)"

text \<open>The outcome of a procedure that writes files: the files as they are when it
  returns, or when it raises.\<close>

datatype outcome = Done file_inventory | Raised error file_inventory

section \<open>to_wps_interm\<close>

text \<open>\<open>pd.Timestamp(data.time.values)\<close>\<close>

definition time_values :: "dataarray \<Rightarrow> error + int" where
  "time_values data =
     (case da_time data of Absent \<Rightarrow> Inl AttributeError | Scalar t \<Rightarrow> Inr t | Axis ts \<Rightarrow> Inl TypeError)"

text \<open>Lines 66 to 69: \<open>hasattr(data, "plev")\<close> also finds an attribute of that name,
  which has no \<open>values\<close>.\<close>

definition plev_of :: "dataarray \<Rightarrow> error + pyval" where
  "plev_of data =
     (case da_plev data of
        Scalar p \<Rightarrow> Inr (VFloat p)
      | Axis ps \<Rightarrow> Inr (VArray ps)
      | Absent \<Rightarrow>
          (if map_of (da_attrs data) (ustr ''plev'') = None then Inr (VInt 200100)
           else Inl AttributeError))"

definition interpolate :: "numlib \<Rightarrow> axis \<Rightarrow> dataarray \<Rightarrow> dataarray" where
  "interpolate lib ax data =
     data\<lparr>da_values :=
       \<lambda>t p. interpolate_na lib ax (da_lat data) (da_lon data) (da_values data t p)\<rparr>"

text \<open>\<open>data.interpolate_na(dim, method="linear", fill_value="extrapolate", keep_attrs=True)\<close>:
  xarray first checks that the index of the dimension is increasing and has no
  duplicates.\<close>

definition interpolate_na_dim :: "numlib \<Rightarrow> axis \<Rightarrow> dataarray \<Rightarrow> error + dataarray" where
  "interpolate_na_dim lib ax data =
     (let index = (case ax of Lat \<Rightarrow> da_lat data | Lon \<Rightarrow> da_lon data) in
      if \<not> sorted index then Inl (ValueError ''Index must be monotonically increasing'')
      else if \<not> distinct index then Inl (ValueError ''Index has duplicate values'')
      else Inr (interpolate lib ax data))"

definition as_record :: "error + byte list \<Rightarrow> error + npdata" where
  "as_record b = ebind b (\<lambda>bs. Inr (PyBytes bs))"

text \<open>Lines 86 to 101: the arguments are evaluated in order, then packed.\<close>

definition header_record :: "numlib \<Rightarrow> dataarray \<Rightarrow> pystr \<Rightarrow> int \<Rightarrow> pyval \<Rightarrow> error + npdata" where
  "header_record lib data var_name time plev =
     ebind (pad (strftime_ymdh time @ ustr '':00:00'') 24) (\<lambda>hdate.
     ebind (pad (ustr ''CMIP6'') 32) (\<lambda>map_source.
     ebind (pad var_name 9) (\<lambda>field.
     ebind (getattr data ''units'') (\<lambda>u.
     ebind (pad u 25) (\<lambda>units.
     ebind (getattr data ''standard_name'') (\<lambda>sn.
     ebind (pad sn 46) (\<lambda>desc.
     as_record (struct_pack lib [Fs 24, Ff, Fs 32, Fs 9, Fs 25, Fs 46, Ff, Fi, Fi, Fi]
       [VBytes hdate, VFloat 0.0, VBytes map_source, VBytes field, VBytes units, VBytes desc,
        plev, VInt (int (length (da_lon data))), VInt (int (length (da_lat data))),
        VInt 0]))))))))"

text \<open>Lines 104 to 115. The literal \<open>6367470e-3\<close> is the Earth radius in km.\<close>

definition EARTH_RADIUS :: real where
  "EARTH_RADIUS = 6367470 / 1000"

definition geometry_record :: "numlib \<Rightarrow> dataarray \<Rightarrow> error + npdata" where
  "geometry_record lib data =
     ebind (pad (ustr ''SWCORNER'') 8) (\<lambda>startloc.
     ebind (item (da_lat data) 0) (\<lambda>lat0.
     ebind (item (da_lon data) 0) (\<lambda>lon0.
     ebind (item (da_lat data) 1) (\<lambda>lat1.
     ebind (item (da_lon data) 1) (\<lambda>lon1.
     as_record (struct_pack lib [Fs 8, Ff, Ff, Ff, Ff, Ff]
       [VBytes startloc, VFloat lat0, VFloat lon0, VFloat (lat1 - lat0), VFloat (lon1 - lon0),
        VFloat EARTH_RADIUS]))))))"

text \<open>Line 121: \<open>transpose("lon", "lat")\<close> needs exactly these two dimensions; the result
  has shape (NX, NY) and is indexed by longitude, then latitude.\<close>

definition is_axis :: "'a coord \<Rightarrow> bool" where
  "is_axis c = (case c of Axis xs \<Rightarrow> True | _ \<Rightarrow> False)"

definition slab_record :: "numlib \<Rightarrow> dataarray \<Rightarrow> error + npdata" where
  "slab_record lib data =
     (if is_axis (da_time data) \<or> is_axis (da_plev data) then Inl (ValueError ''transpose: not a permutation of the dimensions'')
      else Inr (NdF4 (length (da_lon data)) (length (da_lat data))
                  (\<lambda>i j. astype_f4 lib (da_values data 0 0 j i))))"

text \<open>One \<open>write_fortran_record(fp, ...)\<close> statement: its argument is evaluated, then
  written to the file \<open>filename\<close> of the inventory. After an exception nothing more
  happens.\<close>

definition write_to :: "pystr \<Rightarrow> outcome \<Rightarrow> error + npdata \<Rightarrow> outcome" where
  "write_to filename r payload =
     (case r of
        Raised e files \<Rightarrow> Raised e files
      | Done files \<Rightarrow>
          (case ebind payload (write_fortran_record (content files filename)) of
             Inl e \<Rightarrow> Raised e files
           | Inr fp \<Rightarrow> Done (AList.update filename fp files)))"

definition to_wps_interm ::
  "numlib \<Rightarrow> dataarray \<Rightarrow> pystr \<Rightarrow> pystr \<Rightarrow> file_inventory \<Rightarrow> int option \<Rightarrow> outcome" where
  "to_wps_interm lib data var_name prefix file_inventory time =
     (case (case time of None \<Rightarrow> time_values data | Some t \<Rightarrow> Inr t) of
        Inl e \<Rightarrow> Raised e file_inventory
      | Inr time \<Rightarrow>
     (case plev_of data of
        Inl e \<Rightarrow> Raised e file_inventory
      | Inr plev \<Rightarrow>
     (let filename = prefix @ ustr '':'' @ strftime_ymdh time;
          files = get file_inventory filename
      in case ebind (interpolate_na_dim lib Lat data) (interpolate_na_dim lib Lon) of
           Inl e \<Rightarrow> Raised e files
         | Inr data \<Rightarrow>
             foldl (write_to filename) (Done files)
               [as_record (pack_i 5),
                header_record lib data var_name time plev,
                geometry_record lib data,
                as_record (pack_i 0),
                slab_record lib data])))"

section \<open>convert_single_file and convert_files\<close>

text \<open>
  A row of the table \<open>model_conf\<close>; a missing scale (NaN in the table) is \<open>None\<close>. A
  dataset has a time dimension or not (\<open>ds_time\<close> is its index), may have a level
  dimension, and holds its variables in order.
\<close>

record var_conf =
  vc_var_id :: pystr
  vc_wps_name :: pystr
  vc_scale :: "real option"
  vc_units :: pystr

record dataset =
  ds_time :: "int list option"
  ds_plev_dim :: bool
  ds_variables :: "(pystr \<times> dataarray) list"

text \<open>The two selections of xarray, \<open>ds.sel(time=slice(start_date, end_date))\<close> and
  \<open>ds.sel(time=labels)\<close>, are parameters; either may raise.\<close>

record xrlib =
  sel_slice :: "dataset \<Rightarrow> int \<Rightarrow> int \<Rightarrow> error + dataset"
  sel_labels :: "dataset \<Rightarrow> int list \<Rightarrow> error + dataset"

text \<open>A \<open>for\<close> loop whose body writes files: it stops at the first exception.\<close>

fun for_each :: "('a \<Rightarrow> file_inventory \<Rightarrow> outcome) \<Rightarrow> 'a list \<Rightarrow> file_inventory \<Rightarrow> outcome" where
  "for_each body [] files = Done files"
| "for_each body (x # xs) files =
     (case body x files of
        Done files' \<Rightarrow> for_each body xs files'
      | Raised e files' \<Rightarrow> Raised e files')"

text \<open>Lines 160 to 168: with \<open>keep_attrs\<close> the product keeps every attribute, then the
  unit is overwritten.\<close>

definition apply_scale :: "var_conf \<Rightarrow> dataarray \<Rightarrow> dataarray" where
  "apply_scale var_conf data =
     (case vc_scale var_conf of
        None \<Rightarrow> data
      | Some s \<Rightarrow>
          data\<lparr>da_values := \<lambda>t p j i. map_option (\<lambda>x. x * s) (da_values data t p j i),
               da_attrs := AList.update (ustr ''units'') (vc_units var_conf) (da_attrs data)\<rparr>)"

text \<open>Lines 170 to 177.\<close>

definition check_units :: "var_conf \<Rightarrow> dataarray \<Rightarrow> error + unit" where
  "check_units var_conf data =
     (case map_of (da_attrs data) (ustr ''units'') of
        None \<Rightarrow> Inl KeyError
      | Some u \<Rightarrow> if u \<noteq> vc_units var_conf then Inl (ValueError ''Units mismatch'') else Inr ())"

text \<open>\<open>data.isel(time=i)\<close> and \<open>data.isel(plev=j)\<close>: the dimension becomes a scalar
  coordinate.\<close>

definition isel_time :: "dataarray \<Rightarrow> nat \<Rightarrow> dataarray" where
  "isel_time data i =
     data\<lparr>da_time := (case da_time data of Axis ts \<Rightarrow> Scalar (ts ! i) | c \<Rightarrow> c),
          da_values := \<lambda>t. da_values data i\<rparr>"

definition isel_plev :: "dataarray \<Rightarrow> nat \<Rightarrow> dataarray" where
  "isel_plev data j =
     data\<lparr>da_plev := (case da_plev data of Axis ps \<Rightarrow> Scalar (ps ! j) | c \<Rightarrow> c),
          da_values := \<lambda>t p. da_values data t j\<rparr>"

text \<open>Lines 179 to 212. The branch is chosen by the dimensions of the dataset, not of
  the variable. The log line of a level dataset reads \<open>data.plev.values\<close>, which
  raises when the variable has no level; \<open>len(data.time)\<close> needs a time dimension (a
  string attribute of that name has a length too, and then the first \<open>isel\<close> raises).\<close>

definition fan_out ::
  "numlib \<Rightarrow> dataset \<Rightarrow> dataarray \<Rightarrow> var_conf \<Rightarrow> int \<Rightarrow> int \<Rightarrow> int \<Rightarrow> pystr
     \<Rightarrow> file_inventory \<Rightarrow> outcome" where
  "fan_out lib ds data var_conf start_date end_date interval prefix files =
     (if ds_time ds \<noteq> None then
        (if ds_plev_dim ds \<and> da_plev data = Absent then Raised AttributeError files
         else
           (case da_time data of
              Absent \<Rightarrow>
                (case map_of (da_attrs data) (ustr ''time'') of
                   None \<Rightarrow> Raised AttributeError files
                 | Some s \<Rightarrow>
                     if s = [] \<or> da_plev data = Axis [] then Done files
                     else Raised (ValueError ''Dimensions time do not exist'') files)
            | Scalar t \<Rightarrow> Raised TypeError files
            | Axis ts \<Rightarrow>
                for_each (\<lambda>i_time files.
                    (case da_plev data of
                       Axis ps \<Rightarrow>
                         for_each (\<lambda>i_plev files.
                             to_wps_interm lib (isel_plev (isel_time data i_time) i_plev)
                               (vc_wps_name var_conf) prefix files None)
                           [0..<length ps] files
                     | _ \<Rightarrow>
                         to_wps_interm lib (isel_time data i_time)
                           (vc_wps_name var_conf) prefix files None))
                  [0..<length ts] files))
      else
        for_each (\<lambda>time files.
            to_wps_interm lib data (vc_wps_name var_conf) prefix files (Some time))
          (date_range start_date end_date interval) files)"

text \<open>Lines 152 to 212, the loop over the matching rows. The variable \<open>data\<close> is
  assigned before the loop (line 151) and assigned again inside it (line 167), so each
  row starts from what the row before left.\<close>

fun rows_loop ::
  "numlib \<Rightarrow> dataset \<Rightarrow> int \<Rightarrow> int \<Rightarrow> int \<Rightarrow> pystr \<Rightarrow> dataarray \<Rightarrow> var_conf list
     \<Rightarrow> file_inventory \<Rightarrow> outcome" where
  "rows_loop lib ds start_date end_date interval prefix data [] files = Done files"
| "rows_loop lib ds start_date end_date interval prefix data (var_conf # out_vars) files =
     (let data = apply_scale var_conf data in
      case check_units var_conf data of
        Inl e \<Rightarrow> Raised e files
      | Inr _ \<Rightarrow>
          (case fan_out lib ds data var_conf start_date end_date interval prefix files of
             Done files' \<Rightarrow> rows_loop lib ds start_date end_date interval prefix data out_vars files'
           | Raised e files' \<Rightarrow> Raised e files'))"

text \<open>Lines 146 to 212, the body of the loop over the variables.\<close>

definition process_variable ::
  "numlib \<Rightarrow> var_conf list \<Rightarrow> dataset \<Rightarrow> int \<Rightarrow> int \<Rightarrow> int \<Rightarrow> pystr
     \<Rightarrow> pystr \<times> dataarray \<Rightarrow> file_inventory \<Rightarrow> outcome" where
  "process_variable lib model_conf ds start_date end_date interval prefix v files =
     (let out_vars = filter (\<lambda>r. vc_var_id r = fst v) model_conf in
      if out_vars = [] then Done files
      else rows_loop lib ds start_date end_date interval prefix (snd v) out_vars files)"

text \<open>Lines 137 to 144: \<open>None\<close> is the early return on an empty time range.\<close>

definition select_time :: "xrlib \<Rightarrow> dataset \<Rightarrow> int \<Rightarrow> int \<Rightarrow> int \<Rightarrow> error + dataset option" where
  "select_time xr ds start_date end_date interval =
     (case ds_time ds of
        None \<Rightarrow> Inr (Some ds)
      | Some ts \<Rightarrow>
          ebind (sel_slice xr ds start_date end_date) (\<lambda>ds.
            if (case ds_time ds of None \<Rightarrow> 0 | Some ts \<Rightarrow> length ts) = 0 then Inr None
            else ebind (sel_labels xr ds (date_range start_date end_date interval))
                   (\<lambda>ds. Inr (Some ds))))"

definition convert_single_file ::
  "numlib \<Rightarrow> xrlib \<Rightarrow> dataset \<Rightarrow> var_conf list \<Rightarrow> int \<Rightarrow> int \<Rightarrow> int \<Rightarrow> pystr
     \<Rightarrow> file_inventory \<Rightarrow> outcome" where
  "convert_single_file lib xr nc_file model_conf start_date end_date interval prefix files =
     (case select_time xr nc_file start_date end_date interval of
        Inl e \<Rightarrow> Raised e files
      | Inr None \<Rightarrow> Done files
      | Inr (Some ds) \<Rightarrow>
          for_each (process_variable lib model_conf ds start_date end_date interval prefix)
            (ds_variables ds) files)"

text \<open>Lines 217 to 236, on the datasets the files open to. Leaving the \<open>with\<close> block
  closes the files and lets an exception pass.\<close>

definition convert_files ::
  "numlib \<Rightarrow> xrlib \<Rightarrow> var_conf list \<Rightarrow> int \<Rightarrow> int \<Rightarrow> int \<Rightarrow> pystr \<Rightarrow> dataset list \<Rightarrow> outcome" where
  "convert_files lib xr model_conf start_date end_date interval prefix nc_files =
     for_each (\<lambda>nc_file files.
         convert_single_file lib xr nc_file model_conf start_date end_date interval prefix files)
       nc_files []"

section \<open>The layout of a field, in the words of the format\<close>

text \<open>
  The statements below describe what is written with these functions: a payload between
  its two length markers, a text field cut or padded with spaces to its width, the four
  field layouts of the format, and a file of the inventory with bytes appended.
\<close>

definition framed :: "byte list \<Rightarrow> byte list" where
  "framed b = be32 (word_of_nat (length b)) @ b @ be32 (word_of_nat (length b))"

definition padded :: "pystr \<Rightarrow> nat \<Rightarrow> byte list" where
  "padded s n = map of_nat (take n s) @ replicate (n - length s) 32"

definition ascii :: "pystr \<Rightarrow> bool" where
  "ascii s = list_all (\<lambda>c. c < 128) s"

definition append_file :: "file_inventory \<Rightarrow> pystr \<Rightarrow> byte list \<Rightarrow> file_inventory" where
  "append_file files filename bytes =
     AList.update filename (content files filename @ bytes) (get files filename)"

text \<open>A finite value that \<open>struct.pack(">f", x)\<close> accepts.\<close>

definition packable :: "real \<Rightarrow> bool" where
  "packable x = (\<bar>x\<bar> < 2 ^ 128 - 2 ^ 103)"

definition spec_header ::
  "numlib \<Rightarrow> pystr \<Rightarrow> pystr \<Rightarrow> pystr \<Rightarrow> pystr \<Rightarrow> real \<Rightarrow> nat \<Rightarrow> nat \<Rightarrow> byte list" where
  "spec_header lib hdate field units desc xlvl nx ny =
     padded hdate 24 @ be32 (round_f4 lib 0) @ padded (ustr ''CMIP6'') 32 @ padded field 9
     @ padded units 25 @ padded desc 46 @ be32 (round_f4 lib xlvl)
     @ be32 (word_of_nat nx) @ be32 (word_of_nat ny) @ be32 0"

definition spec_geometry :: "numlib \<Rightarrow> real \<Rightarrow> real \<Rightarrow> real \<Rightarrow> real \<Rightarrow> byte list" where
  "spec_geometry lib startlat startlon deltalat deltalon =
     padded (ustr ''SWCORNER'') 8 @ be32 (round_f4 lib startlat) @ be32 (round_f4 lib startlon)
     @ be32 (round_f4 lib deltalat) @ be32 (round_f4 lib deltalon)
     @ be32 (round_f4 lib 6367.47)"

definition spec_slab :: "numlib \<Rightarrow> nat \<Rightarrow> nat \<Rightarrow> grid \<Rightarrow> byte list" where
  "spec_slab lib nx ny field =
     concat (map (\<lambda>j. concat (map (\<lambda>i. be32 (astype_f4 lib (field j i))) [0..<nx])) [0..<ny])"

text \<open>The field of the slice after the two fills, along latitude, then longitude.\<close>

definition filled :: "numlib \<Rightarrow> dataarray \<Rightarrow> grid" where
  "filled lib data =
     interpolate_na lib Lon (da_lat data) (da_lon data)
       (interpolate_na lib Lat (da_lat data) (da_lon data) (da_values data 0 0))"

section \<open>A worked example\<close>

text \<open>
  An instance of the two library parameters, for evaluating the model: \<open>round_f4\<close> is the
  IEEE-754 single pattern of the few values the example uses (0, 1, 10, 11, 20, 21,
  200100 and 6367.47, as \<open>struct.pack(">f", x)\<close> gives them), and \<open>interpolate_na\<close>
  leaves a field unchanged, as it does when no value is missing. The example slice has
  latitudes 10, 20, 40, longitudes 0, 1, no missing value and no pressure level, and is
  valid on 2000-01-01 at 00:00.
\<close>

definition example_lib :: numlib where
  "example_lib =
     \<lparr>round_f4 = (\<lambda>x. case map_of [(0, 0), (1, 0x3F800000), (10, 0x41200000), (11, 0x41300000),
                       (20, 0x41A00000), (21, 0x41A80000), (200100, 0x48436900),
                       (6367.47, 0x45C6FBC3)] x of Some w \<Rightarrow> w | None \<Rightarrow> 0),
      interpolate_na = (\<lambda>ax lat lon field. field)\<rparr>"

definition example_field :: dataarray where
  "example_field =
     \<lparr>da_time = Scalar 946684800, da_plev = Absent, da_lat = [10, 20, 40], da_lon = [0, 1],
      da_values = (\<lambda>t p j i. Some (real (10 * j + i))),
      da_attrs = [(ustr ''units'', ustr ''K''), (ustr ''standard_name'', ustr ''air_temperature'')]\<rparr>"

text \<open>The payload bytes of a record argument.\<close>

definition record_bytes :: "error + npdata \<Rightarrow> byte list" where
  "record_bytes r = (case r of Inl e \<Rightarrow> [] | Inr d \<Rightarrow> tobytes_F d)"

text \<open>The level a slice is written with: its scalar pressure level, or the surface
  sentinel.\<close>

definition xlvl_of :: "dataarray \<Rightarrow> real" where
  "xlvl_of data = (case da_plev data of Scalar p \<Rightarrow> p | _ \<Rightarrow> 200100)"

section \<open>What the pipeline writes for a slice\<close>

text \<open>An attribute of a slice, read as the encoder reads it.\<close>

definition attr :: "dataarray \<Rightarrow> string \<Rightarrow> pystr" where
  "attr data name = (case map_of (da_attrs data) (ustr name) of None \<Rightarrow> [] | Some v \<Rightarrow> v)"

text \<open>
  The conditions under which \<open>to_wps_interm\<close> returns normally on a slice, given a valid
  time: no leftover time or level dimension, no attribute named \<open>plev\<close> when there is no
  level, ASCII text fields, at least two strictly increasing coordinates on each axis,
  and numbers that fit their fields.
\<close>

definition encodable :: "dataarray \<Rightarrow> pystr \<Rightarrow> bool" where
  "encodable data var_name \<longleftrightarrow>
     \<not> is_axis (da_time data) \<and> \<not> is_axis (da_plev data)
     \<and> (da_plev data = Absent \<longrightarrow> map_of (da_attrs data) (ustr ''plev'') = None)
     \<and> packable (xlvl_of data)
     \<and> ascii (take 9 var_name)
     \<and> map_of (da_attrs data) (ustr ''units'') \<noteq> None \<and> ascii (take 25 (attr data ''units''))
     \<and> map_of (da_attrs data) (ustr ''standard_name'') \<noteq> None
     \<and> ascii (take 46 (attr data ''standard_name''))
     \<and> 2 \<le> length (da_lat data) \<and> 2 \<le> length (da_lon data)
     \<and> 4 * (length (da_lon data) * length (da_lat data)) < 2 ^ 31
     \<and> packable (da_lat data ! 0) \<and> packable (da_lon data ! 0)
     \<and> packable (da_lat data ! 1 - da_lat data ! 0)
     \<and> packable (da_lon data ! 1 - da_lon data ! 0)
     \<and> sorted (da_lat data) \<and> distinct (da_lat data)
     \<and> sorted (da_lon data) \<and> distinct (da_lon data)"

text \<open>The five records of a field-slab, for a slice valid at time \<open>t\<close>.\<close>

definition field_slab :: "numlib \<Rightarrow> dataarray \<Rightarrow> pystr \<Rightarrow> int \<Rightarrow> byte list" where
  "field_slab lib data var_name t =
     framed (be32 5)
     @ framed (spec_header lib (strftime_ymdh t @ ustr '':00:00'') var_name (attr data ''units'')
         (attr data ''standard_name'') (xlvl_of data) (length (da_lon data)) (length (da_lat data)))
     @ framed (spec_geometry lib (da_lat data ! 0) (da_lon data ! 0)
         (da_lat data ! 1 - da_lat data ! 0) (da_lon data ! 1 - da_lon data ! 0))
     @ framed (be32 0)
     @ framed (spec_slab lib (length (da_lon data)) (length (da_lat data)) (filled lib data))"

section \<open>Examples for the pipeline\<close>

text \<open>
  The example slice as a variable with two times and two levels, and as a static
  variable; a row of the table that maps it without a scale; a dataset with a time and a
  level dimension, and a static dataset.
\<close>

definition example_cube :: dataarray where
  "example_cube = example_field\<lparr>da_time := Axis [946684800, 946706400], da_plev := Axis [85000, 50000]\<rparr>"

definition example_static :: dataarray where
  "example_static = example_field\<lparr>da_time := Absent\<rparr>"

definition example_row :: var_conf where
  "example_row = \<lparr>vc_var_id = ustr ''ta'', vc_wps_name = ustr ''TT'', vc_scale = None, vc_units = ustr ''K''\<rparr>"

definition timed_ds :: dataset where
  "timed_ds = \<lparr>ds_time = Some [946684800, 946706400], ds_plev_dim = True,
               ds_variables = [(ustr ''ta'', example_cube)]\<rparr>"

definition static_ds :: dataset where
  "static_ds = \<lparr>ds_time = None, ds_plev_dim = False, ds_variables = [(ustr ''ta'', example_static)]\<rparr>"

text \<open>Selections that keep the dataset as it is, for evaluating the model.\<close>

definition example_xr :: xrlib where
  "example_xr = \<lparr>sel_slice = (\<lambda>ds start_date end_date. Inr ds), sel_labels = (\<lambda>ds labels. Inr ds)\<rparr>"

text \<open>A row that declares another unit than the example slice has.\<close>

definition celsius_row :: var_conf where
  "celsius_row = \<lparr>vc_var_id = ustr ''ta'', vc_wps_name = ustr ''TT'', vc_scale = None,
                   vc_units = ustr ''degC''\<rparr>"

text \<open>
  The example library with the single-precision patterns of 2, 3 and 6 added, a static
  field of ones, the dataset that holds it, and two rows for the same variable with the
  factors 2 and 3.
\<close>

definition scale_lib :: numlib where
  "scale_lib =
     example_lib\<lparr>round_f4 := (\<lambda>x. if x = 2 then 0x40000000 else if x = 3 then 0x40400000
                     else if x = 6 then 0x40C00000 else round_f4 example_lib x)\<rparr>"

definition unit_field :: dataarray where
  "unit_field = example_static\<lparr>da_values := (\<lambda>t p j i. Some 1)\<rparr>"

definition unit_ds :: dataset where
  "unit_ds = \<lparr>ds_time = None, ds_plev_dim = False, ds_variables = [(ustr ''ta'', unit_field)]\<rparr>"

definition row_double :: var_conf where
  "row_double = \<lparr>vc_var_id = ustr ''ta'', vc_wps_name = ustr ''TT2'', vc_scale = Some 2,
                  vc_units = ustr ''K''\<rparr>"

definition row_triple :: var_conf where
  "row_triple = \<lparr>vc_var_id = ustr ''ta'', vc_wps_name = ustr ''TT3'', vc_scale = Some 3,
                  vc_units = ustr ''K''\<rparr>"

section \<open>Properties of the model\<close>

section \<open>Properties of the byte layer\<close>

lemma length_be32 [simp]: "length (be32 w) = 4"
  by (simp add: be32_def)

subsection \<open>Length markers read back\<close>

lemma uint_byte: "uint (ucast (drop_bit k (w::32 word)) :: byte) = (uint w div 2 ^ k) mod 256"
proof -
  have "uint (ucast (drop_bit k w) :: byte) = take_bit 8 (drop_bit k (take_bit 32 (uint w)))"
    by (simp add: unsigned_ucast_eq unsigned_drop_bit_eq)
  also have "take_bit 32 (uint w) = uint w"
    by (simp add: take_bit_int_eq_self_iff uint_bounded [of w, simplified])
  finally show ?thesis
    by (simp add: take_bit_eq_mod drop_bit_eq_div)
qed

lemma split4:
  assumes "0 \<le> (x::int)" "x < 4294967296"
  shows "x div 16777216 mod 256 * 16777216 + x div 65536 mod 256 * 65536 + x div 256 mod 256 * 256 + x mod 256 = x"
proof -
  define a where "a = x div 256"
  define b where "b = a div 256"
  define c where "c = b div 256"
  have xa: "x = 256 * a + x mod 256" by (simp add: a_def)
  have ab: "a = 256 * b + a mod 256" by (simp add: b_def)
  have bc: "b = 256 * c + b mod 256" by (simp add: c_def)
  have d2: "x div 65536 = b"
    using zdiv_zmult2_eq [of 256 x 256] by (simp add: a_def b_def)
  have d3: "x div 16777216 = c"
    using zdiv_zmult2_eq [of 256 x 65536] zdiv_zmult2_eq [of 256 a 256] d2
    by (simp add: a_def b_def c_def)
  have "0 \<le> c" using assms by (simp add: a_def b_def c_def)
  moreover have "c < 256" using assms unfolding d3 [symmetric] by simp
  ultimately have cm: "c mod 256 = c" by simp
  show ?thesis
    unfolding d2 d3 cm a_def [symmetric] using xa ab bc by linarith
qed

lemma be_sum: "uint (ucast (drop_bit 24 w) :: byte) * 2 ^ 24 + uint (ucast (drop_bit 16 w) :: byte) * 2 ^ 16
   + uint (ucast (drop_bit 8 w) :: byte) * 2 ^ 8 + uint (ucast w :: byte) = uint (w :: 32 word)"
proof -
  have b: "uint w < 4294967296" using uint_bounded [of w] by simp
  have p: "0 \<le> uint w" by simp
  have "uint (ucast w :: byte) = take_bit 8 (uint w)"
    by (simp add: unsigned_ucast_eq)
  then have u0: "uint (ucast w :: byte) = uint w mod 256"
    by (simp only: take_bit_eq_mod) simp
  have e: "(2::int) ^ 24 = 16777216" "(2::int) ^ 16 = 65536" "(2::int) ^ 8 = 256"
    by simp_all
  show ?thesis
    unfolding uint_byte u0 e by (rule split4 [OF p b])
qed

lemma uint_word_of_int_32: "uint (word_of_int n :: 32 word) = n mod 4294967296"
  by (simp add: uint_word_of_int take_bit_eq_mod)

lemma unpack_pack: 
  assumes "pack_i n = Inr bs" shows "unpack_i bs = n"
proof -
  from assms have r: "- 2147483648 \<le> n" "n < 2147483648" and bs: "bs = be32 (word_of_int n)"
    by (auto simp: pack_i_def split: if_splits)
  have u: "uint (bs ! 0) * 2 ^ 24 + uint (bs ! 1) * 2 ^ 16 + uint (bs ! 2) * 2 ^ 8 + uint (bs ! 3)
      = n mod 4294967296"
    unfolding bs using be_sum [of "word_of_int n"] by (simp add: be32_def uint_word_of_int_32)
  show ?thesis
  proof (cases "0 \<le> n")
    case True
    with r have "n mod 4294967296 = n" by simp
    with u r show ?thesis by (simp add: unpack_i_def Let_def)
  next
    case False
    have a: "(n + 4294967296) mod 4294967296 = n + 4294967296"
      using r False by (intro mod_pos_pos_trivial) simp_all
    have "(n + 4294967296) mod 4294967296 = n mod 4294967296" by simp
    with a have "n mod 4294967296 = n + 4294967296" by simp
    with u r False show ?thesis by (simp add: unpack_i_def Let_def not_le)
  qed
qed

lemma pad_eq:
  "pad s n =
     (if list_all (\<lambda>c. c < 128) (take n s)
      then Inr (map of_nat (take n s) @ replicate (n - length s) 32)
      else Inl UnicodeEncodeError)"
  by (auto simp: pad_def encode_ascii_def ljust_def list_all_iff map_replicate_const
      dest: in_set_takeD)

lemma length_pad: "pad s n = Inr b \<Longrightarrow> length b = n"
  unfolding pad_eq by (cases "list_all (\<lambda>c. c < 128) (take n s)") auto

lemma write_bytes_Inr:
  assumes "P \<noteq> []" "length P < 2 ^ 31"
  shows "write_fortran_record fp (PyBytes P) =
         Inr (fp @ be32 (word_of_nat (length P)) @ P @ be32 (word_of_nat (length P)))"
proof -
  have m: "max (Suc 0) (length P) = length P" using assms(1) by (cases P) simp_all
  have "int (length P) < 2 ^ 31" using assms(2) by (simp flip: of_nat_less_iff)
  then have "pack_i (int (length P)) = Inr (be32 (word_of_nat (length P)))"
    by (simp add: pack_i_def)
  then show ?thesis using assms by (simp add: write_fortran_record_def ebind_def m)
qed

lemma length_padded [simp]: "length (padded s n) = n"
  by (simp add: padded_def)

lemma pad_padded: "ascii (take n s) \<Longrightarrow> pad s n = Inr (padded s n)"
  by (simp add: pad_eq padded_def ascii_def)

lemma ascii_ustr_literals [simp]:
  "ascii (ustr ''CMIP6'')" "ascii (ustr ''SWCORNER'')" "ascii (ustr '':00:00'')"
  "ascii (ustr ''-'')" "ascii (ustr ''_'')"
  by (simp_all add: ascii_def ustr_def)

lemma ascii_append [simp]: "ascii (a @ b) \<longleftrightarrow> ascii a \<and> ascii b"
  by (simp add: ascii_def)

lemma ascii_take: "ascii s \<Longrightarrow> ascii (take n s)"
  by (auto simp: ascii_def list_all_iff dest: in_set_takeD)

lemma digit_lt: "48 + nat (n mod 10) < 128"
proof -
  have "n mod 10 < 10" by simp
  then show ?thesis by linarith
qed

lemma ascii_dec2 [simp]: "ascii (dec2 n)"
  by (simp add: ascii_def dec2_def digit_lt)

lemma ascii_dec4 [simp]: "ascii (dec4 n)"
  by (simp add: ascii_def dec4_def digit_lt)

lemma ascii_strftime_ymdh [simp]: "ascii (strftime_ymdh t)"
  by (simp add: strftime_ymdh_def split: prod.split)

lemma write_bytes_framed:
  "b \<noteq> [] \<Longrightarrow> length b < 2 ^ 31 \<Longrightarrow> write_fortran_record fp (PyBytes b) = Inr (fp @ framed b)"
  by (simp add: write_bytes_Inr framed_def)

lemma length_concat_be32:
  "length (concat (map (\<lambda>i. be32 (f i)) xs)) = 4 * length xs"
  by (induction xs) simp_all

lemma length_tobytes_F [simp]: "length (tobytes_F (NdF4 n0 n1 a)) = 4 * (n0 * n1)"
proof -
  have "length (concat (map (\<lambda>j. concat (map (\<lambda>i. be32 (a i j)) [0..<n0])) xs)) = 4 * n0 * length xs"
    for xs by (induction xs) (simp_all add: length_concat_be32)
  from this [of "[0..<n1]"] show ?thesis by simp
qed

lemma write_array_framed:
  assumes "4 * (n0 * n1) < 2 ^ 31"
  shows "write_fortran_record fp (NdF4 n0 n1 a) = Inr (fp @ framed (tobytes_F (NdF4 n0 n1 a)))"
proof -
  define N where "N = 4 * (n0 * n1)"
  have "int N < int (2 ^ 31)" using assms unfolding N_def by (simp only: of_nat_less_iff)
  then have "int N < 2 ^ 31" by simp
  then have "pack_i (int N) = Inr (be32 (word_of_nat N))"
    by (simp add: pack_i_def)
  moreover have "np_nbytes (NdF4 n0 n1 a) = N" "length (tobytes_F (NdF4 n0 n1 a)) = N"
    using length_tobytes_F [of n0 n1 a] by (simp_all add: N_def)
  ultimately show ?thesis
    by (simp add: write_fortran_record_def ebind_def framed_def del: tobytes_F.simps np_nbytes.simps)
qed

lemma content_get [simp]: "content (get files fn) fn = content files fn"
  by (simp add: content_def get_def map_add_def)

lemma content_update [simp]: "content (AList.update fn fp files) fn = fp"
  by (simp add: content_def update_conv')

lemma write_to_Done:
  "write_fortran_record (content files fn) d = Inr fp \<Longrightarrow>
   write_to fn (Done files) (Inr d) = Done (AList.update fn fp files)"
  by (simp add: write_to_def ebind_def)

lemma write_to_bytes:
  assumes "payload = Inr (PyBytes b)" "b \<noteq> []" "length b < 2 ^ 31"
  shows "write_to fn (Done files) payload = Done (AList.update fn (content files fn @ framed b) files)"
  unfolding assms(1) using assms(2,3) by (intro write_to_Done) (simp add: write_bytes_framed)

lemma pack_i_small: "- (2 ^ 31) \<le> n \<Longrightarrow> n < 2 ^ 31 \<Longrightarrow> pack_i n = Inr (be32 (word_of_int n))"
  by (simp add: pack_i_def)

lemma interpolate_simps [simp]:
  "da_lat (interpolate lib ax d) = da_lat d"
  "da_lon (interpolate lib ax d) = da_lon d"
  "da_time (interpolate lib ax d) = da_time d"
  "da_plev (interpolate lib ax d) = da_plev d"
  "da_attrs (interpolate lib ax d) = da_attrs d"
  "da_values (interpolate lib ax d) t p = interpolate_na lib ax (da_lat d) (da_lon d) (da_values d t p)"
  by (simp_all add: interpolate_def)

lemma getattr_interpolate [simp]: "getattr (interpolate lib ax d) n = getattr d n"
  by (simp add: getattr_def)

lemma pack_f_packable: "packable x \<Longrightarrow> pack_f lib x = Inr (be32 (round_f4 lib x))"
  by (simp add: pack_f_def packable_def)

lemma packable_consts [simp]: "packable 0" "packable 6367.47" "packable 200100"
  by (simp_all add: packable_def)

lemma take_padded [simp]: "take n (padded s n) = padded s n"
  by simp

lemma pack_i_nat:
  assumes "n < 2 ^ 31"
  shows "pack_i (int n) = Inr (be32 (word_of_nat n))"
proof -
  have "int n < int (2 ^ 31)" using assms by (simp only: of_nat_less_iff)
  then have "int n < 2 ^ 31" by simp
  then show ?thesis by (simp add: pack_i_def)
qed

lemma header_record_ok:
  assumes "ascii (take 9 var_name)"
    and "getattr data ''units'' = Inr units" "ascii (take 25 units)"
    and "getattr data ''standard_name'' = Inr desc" "ascii (take 46 desc)"
    and "pack_field lib Ff plev = Inr (be32 (round_f4 lib xlvl))"
    and "length (da_lon data) < 2 ^ 31" "length (da_lat data) < 2 ^ 31"
  shows "header_record lib data var_name t plev =
         Inr (PyBytes (spec_header lib (strftime_ymdh t @ ustr '':00:00'') var_name units desc xlvl
                (length (da_lon data)) (length (da_lat data))))"
proof -
  have h: "pad (strftime_ymdh t @ ustr '':00:00'') 24 = Inr (padded (strftime_ymdh t @ ustr '':00:00'') 24)"
    by (rule pad_padded) (simp add: ascii_take)
  have m: "pad (ustr ''CMIP6'') 32 = Inr (padded (ustr ''CMIP6'') 32)"
    by (rule pad_padded) (simp add: ascii_take)
  have nx: "pack_i (int (length (da_lon data))) = Inr (be32 (word_of_nat (length (da_lon data))))"
    using assms(7) by (rule pack_i_nat)
  have ny: "pack_i (int (length (da_lat data))) = Inr (be32 (word_of_nat (length (da_lat data))))"
    using assms(8) by (rule pack_i_nat)
  have z: "pack_i 0 = Inr (be32 0)" by (simp add: pack_i_def)
  show ?thesis
    unfolding header_record_def
    by (simp add: ebind_def as_record_def h m pad_padded [OF assms(1)] assms(2) assms(4)
        pad_padded [OF assms(3)] pad_padded [OF assms(5)] assms(6) nx ny z pack_f_packable
        spec_header_def)
qed

lemma geometry_record_ok:
  assumes "da_lat data = lat0 # lat1 # lats" "da_lon data = lon0 # lon1 # lons"
    and "packable lat0" "packable lon0" "packable (lat1 - lat0)" "packable (lon1 - lon0)"
  shows "geometry_record lib data =
         Inr (PyBytes (spec_geometry lib lat0 lon0 (lat1 - lat0) (lon1 - lon0)))"
proof -
  have s: "pad (ustr ''SWCORNER'') 8 = Inr (padded (ustr ''SWCORNER'') 8)"
    by (rule pad_padded) (simp add: ascii_take)
  have e: "pack_f lib EARTH_RADIUS = Inr (be32 (round_f4 lib EARTH_RADIUS))"
    by (simp add: pack_f_def EARTH_RADIUS_def)
  show ?thesis
    unfolding geometry_record_def s
    by (simp add: ebind_def as_record_def item_def assms pack_f_packable e spec_geometry_def)
       (simp add: EARTH_RADIUS_def)
qed

lemma slab_record_ok:
  assumes "\<not> is_axis (da_time data)" "\<not> is_axis (da_plev data)"
  shows "slab_record lib data =
         Inr (NdF4 (length (da_lon data)) (length (da_lat data))
                (\<lambda>i j. astype_f4 lib (da_values data 0 0 j i)))"
  using assms by (simp add: slab_record_def)

lemma tobytes_F_slab:
  "tobytes_F (NdF4 nx ny (\<lambda>i j. astype_f4 lib (field j i))) = spec_slab lib nx ny field"
  by (simp add: spec_slab_def)

lemma get_as_update: "get files fn = AList.update fn (content files fn) (get files fn)"
proof -
  have "map_of (get files fn) fn = Some (content files fn)"
    by (cases "map_of files fn") (simp_all add: get_def content_def map_add_def)
  then show ?thesis by (simp add: update_triv)
qed

lemma write_to_bytes_update:
  assumes "payload = Inr (PyBytes b)" "b \<noteq> []" "length b < 2 ^ 31"
  shows "write_to fn (Done (AList.update fn c F)) payload = Done (AList.update fn (c @ framed b) F)"
  using write_to_bytes [OF assms, of fn "AList.update fn c F"] by simp

lemma write_to_array_update:
  assumes "payload = Inr (NdF4 n0 n1 a)" "4 * (n0 * n1) < 2 ^ 31"
  shows "write_to fn (Done (AList.update fn c F)) payload =
         Done (AList.update fn (c @ framed (tobytes_F (NdF4 n0 n1 a))) F)"
proof -
  have "write_fortran_record (content (AList.update fn c F) fn) (NdF4 n0 n1 a) =
        Inr (c @ framed (tobytes_F (NdF4 n0 n1 a)))"
    using write_array_framed [OF assms(2), of c a] by simp
  from write_to_Done [OF this] show ?thesis unfolding assms(1) by simp
qed

lemma be32_nonempty [simp]: "be32 w \<noteq> []"
  by (simp add: be32_def)

lemma spec_header_nonempty [simp]: "spec_header lib hdate field units desc xlvl nx ny \<noteq> []"
  by (simp add: spec_header_def)

lemma spec_geometry_nonempty [simp]: "spec_geometry lib a b c d \<noteq> []"
  by (simp add: spec_geometry_def)

lemma length_spec_header [simp]:
  "length (spec_header lib hdate field units desc xlvl nx ny) = 156"
  by (simp add: spec_header_def)

lemma length_spec_geometry [simp]:
  "length (spec_geometry lib a b c d) = 28"
  by (simp add: spec_geometry_def)

lemma to_wps_interm_Done:
  assumes tm: "(case time of None \<Rightarrow> time_values data | Some t \<Rightarrow> Inr t) = Inr t"
    and pl: "plev_of data = Inr plev" "pack_field lib Ff plev = Inr (be32 (round_f4 lib xlvl))"
    and dims: "\<not> is_axis (da_time data)" "\<not> is_axis (da_plev data)"
    and name: "ascii (take 9 var_name)"
    and units: "getattr data ''units'' = Inr units" "ascii (take 25 units)"
    and desc: "getattr data ''standard_name'' = Inr desc" "ascii (take 46 desc)"
    and lat: "da_lat data = lat0 # lat1 # lats"
    and lon: "da_lon data = lon0 # lon1 # lons"
    and size: "4 * (length (da_lon data) * length (da_lat data)) < 2 ^ 31"
    and pk: "packable lat0" "packable lon0" "packable (lat1 - lat0)" "packable (lon1 - lon0)"
    and mono: "sorted (da_lat data)" "distinct (da_lat data)"
              "sorted (da_lon data)" "distinct (da_lon data)"
  shows "to_wps_interm lib data var_name prefix files time =
         Done (append_file files (prefix @ ustr '':'' @ strftime_ymdh t)
           (framed (be32 5)
            @ framed (spec_header lib (strftime_ymdh t @ ustr '':00:00'') var_name units desc xlvl
                (length (da_lon data)) (length (da_lat data)))
            @ framed (spec_geometry lib lat0 lon0 (lat1 - lat0) (lon1 - lon0))
            @ framed (be32 0)
            @ framed (spec_slab lib (length (da_lon data)) (length (da_lat data)) (filled lib data))))"
proof -
  define fn where "fn = prefix @ ustr '':'' @ strftime_ymdh t"
  define d2 where "d2 = interpolate lib Lon (interpolate lib Lat data)"
  define F where "F = get files fn"
  define H where "H = spec_header lib (strftime_ymdh t @ ustr '':00:00'') var_name units desc xlvl
                (length (da_lon data)) (length (da_lat data))"
  define G where "G = spec_geometry lib lat0 lon0 (lat1 - lat0) (lon1 - lon0)"
  define a where "a = (\<lambda>i j. astype_f4 lib (filled lib data j i))"
  define NX where "NX = length (da_lon data)"
  define NY where "NY = length (da_lat data)"
  have nx: "NX < 2 ^ 31" and ny: "NY < 2 ^ 31"
    using size lat lon by (simp_all add: NX_def NY_def)
  have r1: "as_record (pack_i 5) = Inr (PyBytes (be32 5))"
    by (simp add: as_record_def ebind_def pack_i_def)
  have r4: "as_record (pack_i 0) = Inr (PyBytes (be32 0))"
    by (simp add: as_record_def ebind_def pack_i_def)
  have r2: "header_record lib d2 var_name t plev = Inr (PyBytes H)"
    unfolding H_def d2_def
    using header_record_ok [of var_name d2 units desc lib plev xlvl t] name units desc pl nx ny
    by (simp add: d2_def NX_def NY_def)
  have r3: "geometry_record lib d2 = Inr (PyBytes G)"
    unfolding G_def d2_def
    by (rule geometry_record_ok [where lats = lats and lons = lons]) (simp_all add: lat lon pk)
  have r5: "slab_record lib d2 = Inr (NdF4 NX NY a)"
    using slab_record_ok [of d2 lib] dims
    by (simp add: d2_def a_def NX_def NY_def filled_def)
  have t5: "tobytes_F (NdF4 NX NY a) = spec_slab lib NX NY (filled lib data)"
    unfolding a_def by (rule tobytes_F_slab)
  have sz: "4 * (NX * NY) < 2 ^ 31" using size by (simp add: NX_def NY_def)
  have s0: "Done F = Done (AList.update fn (content files fn) F)"
    unfolding F_def using get_as_update [of files fn] by simp
  have w1: "write_to fn (Done F) (as_record (pack_i 5)) =
            Done (AList.update fn (content files fn @ framed (be32 5)) F)"
    unfolding s0 by (rule write_to_bytes_update [OF r1]) simp_all
  have w2: "write_to fn (Done (AList.update fn (content files fn @ framed (be32 5)) F))
              (header_record lib d2 var_name t plev) =
            Done (AList.update fn ((content files fn @ framed (be32 5)) @ framed H) F)"
    by (rule write_to_bytes_update [OF r2]) (simp_all add: H_def)
  have w3: "write_to fn (Done (AList.update fn ((content files fn @ framed (be32 5)) @ framed H) F))
              (geometry_record lib d2) =
            Done (AList.update fn (((content files fn @ framed (be32 5)) @ framed H) @ framed G) F)"
    by (rule write_to_bytes_update [OF r3]) (simp_all add: G_def)
  have w4: "write_to fn (Done (AList.update fn (((content files fn @ framed (be32 5)) @ framed H) @ framed G) F))
              (as_record (pack_i 0)) =
            Done (AList.update fn ((((content files fn @ framed (be32 5)) @ framed H) @ framed G)
                   @ framed (be32 0)) F)"
    by (rule write_to_bytes_update [OF r4]) simp_all
  have w5: "write_to fn (Done (AList.update fn ((((content files fn @ framed (be32 5)) @ framed H) @ framed G)
                   @ framed (be32 0)) F)) (slab_record lib d2) =
            Done (AList.update fn (((((content files fn @ framed (be32 5)) @ framed H) @ framed G)
                   @ framed (be32 0)) @ framed (tobytes_F (NdF4 NX NY a))) F)"
    by (rule write_to_array_update [OF r5 sz])
  have "to_wps_interm lib data var_name prefix files time =
        foldl (write_to fn) (Done F)
          [as_record (pack_i 5), header_record lib d2 var_name t plev, geometry_record lib d2,
           as_record (pack_i 0), slab_record lib d2]"
    using mono
    by (simp add: to_wps_interm_def tm pl Let_def fn_def d2_def F_def interpolate_na_dim_def
        ebind_def)
  also have "\<dots> = Done (AList.update fn (((((content files fn @ framed (be32 5)) @ framed H) @ framed G)
                   @ framed (be32 0)) @ framed (spec_slab lib NX NY (filled lib data))) F)"
    by (simp only: foldl.simps w1 w2 w3 w4 w5 t5)
  finally show ?thesis
    by (simp add: append_file_def F_def fn_def H_def G_def NX_def NY_def)
qed

lemma example_hyps:
  "time_values example_field = Inr 946684800"
  "plev_of example_field = Inr (VInt 200100)"
  "\<not> is_axis (da_time example_field)" "\<not> is_axis (da_plev example_field)"
  "ascii (take 9 (ustr ''TT''))"
  "getattr example_field ''units'' = Inr (ustr ''K'')" "ascii (take 25 (ustr ''K''))"
  "getattr example_field ''standard_name'' = Inr (ustr ''air_temperature'')"
  "ascii (take 46 (ustr ''air_temperature''))"
  "da_lat example_field = 10 # 20 # [40]" "da_lon example_field = 0 # 1 # []"
  "4 * (length (da_lon example_field) * length (da_lat example_field)) < 2 ^ 31"
  "packable 10" "packable 0" "packable (20 - 10)" "packable (1 - 0)"
  "sorted (da_lat example_field)" "distinct (da_lat example_field)"
  "sorted (da_lon example_field)" "distinct (da_lon example_field)"
  by (simp_all add: example_field_def time_values_def plev_of_def is_axis_def ascii_def ustr_def
      getattr_def packable_def)

lemma pack_field_level: "packable x \<Longrightarrow> pack_field lib Ff (VFloat x) = Inr (be32 (round_f4 lib x))"
  by (simp add: pack_f_packable)

lemma pack_field_surface: "pack_field lib Ff (VInt 200100) = Inr (be32 (round_f4 lib 200100))"
  by (simp add: pack_f_packable)

lemma nth_block:
  assumes "\<And>x. x \<in> set xs \<Longrightarrow> length (f x) = k" "n < length xs"
  shows "take k (drop (k * n) (concat (map f xs))) = f (xs ! n)"
  using assms
proof (induction xs arbitrary: n)
  case Nil
  then show ?case by simp
next
  case (Cons x xs)
  show ?case
  proof (cases n)
    case 0
    then show ?thesis using Cons.prems(1) [of x] by simp
  next
    case (Suc m)
    have "take k (drop (k * m) (concat (map f xs))) = f (xs ! m)"
      using Cons.prems Suc by (intro Cons.IH) simp_all
    moreover have "length (f x) = k" using Cons.prems(1) by simp
    ultimately show ?thesis using Suc by simp
  qed
qed

lemma spec_slab_at:
  assumes "i < nx" "j < ny"
  shows "take 4 (drop (4 * (j * nx + i)) (spec_slab lib nx ny field)) = be32 (astype_f4 lib (field j i))"
proof -
  define row where "row = (\<lambda>j. concat (map (\<lambda>i. be32 (astype_f4 lib (field j i))) [0..<nx]))"
  have lr: "length (row j') = 4 * nx" for j'
    by (simp add: row_def length_concat_be32)
  have s: "spec_slab lib nx ny field = concat (map row [0..<ny])"
    by (simp add: spec_slab_def row_def)
  have r: "take (4 * nx) (drop (4 * nx * j) (concat (map row [0..<ny]))) = row j"
    using nth_block [of "[0..<ny]" row "4 * nx" j] assms(2) lr by simp
  have e: "take 4 (drop (4 * i) (row j)) = be32 (astype_f4 lib (field j i))"
    unfolding row_def
    using nth_block [of "[0..<nx]" "\<lambda>i. be32 (astype_f4 lib (field j i))" 4 i] assms(1) by simp
  have "4 * (j * nx + i) = 4 * i + 4 * nx * j" by (simp add: algebra_simps)
  then have "take 4 (drop (4 * (j * nx + i)) (concat (map row [0..<ny])))
        = take 4 (drop (4 * i) (drop (4 * nx * j) (concat (map row [0..<ny]))))"
    by (simp only: drop_drop)
  also have "\<dots> = take 4 (drop (4 * i) (take (4 * nx) (drop (4 * nx * j) (concat (map row [0..<ny])))))"
    using assms(1) by (simp add: drop_take min_def)
  also have "\<dots> = be32 (astype_f4 lib (field j i))"
    unfolding r by (rule e)
  finally show ?thesis unfolding s .
qed

lemma plev_packed:
  assumes "\<not> is_axis (da_plev data)"
    and "da_plev data = Absent \<longrightarrow> map_of (da_attrs data) (ustr ''plev'') = None"
    and "packable (xlvl_of data)"
  shows "\<exists>plev. plev_of data = Inr plev
           \<and> pack_field lib Ff plev = Inr (be32 (round_f4 lib (xlvl_of data)))"
proof (cases "da_plev data")
  case Absent
  with assms(2) have "plev_of data = Inr (VInt 200100)" by (simp add: plev_of_def)
  moreover have "xlvl_of data = 200100" using Absent by (simp add: xlvl_of_def)
  ultimately show ?thesis by (simp add: pack_f_packable)
next
  case (Scalar p)
  then have "plev_of data = Inr (VFloat p)" "xlvl_of data = p"
    by (simp_all add: plev_of_def xlvl_of_def)
  with assms(3) show ?thesis by (simp add: pack_f_packable)
next
  case (Axis ps)
  with assms(1) show ?thesis by (simp add: is_axis_def)
qed

lemma record_bytes_slab:
  assumes "\<not> is_axis (da_time data)" "\<not> is_axis (da_plev data)"
  shows "record_bytes (slab_record lib data) =
         spec_slab lib (length (da_lon data)) (length (da_lat data)) (da_values data 0 0)"
  using assms by (simp add: record_bytes_def slab_record_def spec_slab_def)

lemma length_spec_slab [simp]: "length (spec_slab lib nx ny field) = 4 * (nx * ny)"
  using length_tobytes_F [of nx ny "\<lambda>i j. astype_f4 lib (field j i)"]
  by (simp add: spec_slab_def)

lemma example_round:
  "be32 (astype_f4 example_lib (da_values example_field 0 0 0 1)) = [63, 128, 0, 0]"
  "be32 (astype_f4 example_lib (da_values example_field 0 0 1 0)) = [65, 32, 0, 0]"
  by (simp_all add: example_lib_def example_field_def astype_f4_def be32_def)

lemma example_time:
  "(case None of None \<Rightarrow> time_values example_field | Some t \<Rightarrow> Inr t) = Inr 946684800"
  by (simp add: example_hyps)

lemma example_plev:
  "da_plev example_field = Absent"
  "map_of (da_attrs example_field) (ustr ''plev'') = None"
  "packable (xlvl_of example_field)"
  by (simp_all add: example_field_def ustr_def xlvl_of_def)


lemma two_or_more:
  assumes "2 \<le> length xs"
  shows "\<exists>r. xs = xs ! 0 # xs ! 1 # r"
proof (cases xs)
  case Nil
  with assms show ?thesis by simp
next
  case (Cons a ys)
  with assms show ?thesis by (cases ys) simp_all
qed

lemma to_wps_interm_encodable:
  assumes e: "encodable data var_name"
    and t: "(case time of None \<Rightarrow> time_values data | Some t \<Rightarrow> Inr t) = Inr t"
  shows "to_wps_interm lib data var_name prefix files time =
         Done (append_file files (prefix @ ustr '':'' @ strftime_ymdh t)
                 (field_slab lib data var_name t))"
proof -
  from e have lat2: "2 \<le> length (da_lat data)" and lon2: "2 \<le> length (da_lon data)"
    by (simp_all add: encodable_def)
  from two_or_more [OF lat2] obtain lats where
    lat: "da_lat data = da_lat data ! 0 # da_lat data ! 1 # lats" by blast
  from two_or_more [OF lon2] obtain lons where
    lon: "da_lon data = da_lon data ! 0 # da_lon data ! 1 # lons" by blast
  from e have ax: "\<not> is_axis (da_time data)" "\<not> is_axis (da_plev data)"
    and at: "da_plev data = Absent \<longrightarrow> map_of (da_attrs data) (ustr ''plev'') = None"
    and px: "packable (xlvl_of data)"
    by (simp_all add: encodable_def)
  from plev_packed [OF ax(2) at px] obtain plev where
    p: "plev_of data = Inr plev"
       "pack_field lib Ff plev = Inr (be32 (round_f4 lib (xlvl_of data)))"
    by blast
  from e have u: "getattr data ''units'' = Inr (attr data ''units'')"
    and s: "getattr data ''standard_name'' = Inr (attr data ''standard_name'')"
    by (auto simp: encodable_def getattr_def attr_def)
  from e have rest: "ascii (take 9 var_name)" "ascii (take 25 (attr data ''units''))"
      "ascii (take 46 (attr data ''standard_name''))"
      "4 * (length (da_lon data) * length (da_lat data)) < 2 ^ 31"
      "packable (da_lat data ! 0)" "packable (da_lon data ! 0)"
      "packable (da_lat data ! 1 - da_lat data ! 0)"
      "packable (da_lon data ! 1 - da_lon data ! 0)"
      "sorted (da_lat data)" "distinct (da_lat data)"
      "sorted (da_lon data)" "distinct (da_lon data)"
    by (simp_all add: encodable_def)
  from to_wps_interm_Done [OF t p ax rest(1) u rest(2) s rest(3) lat lon rest(4-12),
      of prefix files]
  show ?thesis by (simp only: field_slab_def)
qed

lemma for_each_append:
  "for_each body (xs @ ys) files =
     (case for_each body xs files of
        Done files' \<Rightarrow> for_each body ys files'
      | Raised e files' \<Rightarrow> Raised e files')"
  by (induction xs arbitrary: files) (simp_all split: outcome.splits)

lemma for_each_all_Done:
  assumes "\<And>x files. x \<in> set xs \<Longrightarrow> body x files = Done (g files x)"
  shows "for_each body xs files = Done (foldl g files xs)"
  using assms by (induction xs arbitrary: files) simp_all

lemma foldl_product:
  "foldl (\<lambda>f i. foldl (\<lambda>f j. h f i j) f ys) f xs =
   foldl (\<lambda>f (i, j). h f i j) f (List.product xs ys)"
proof (induction xs arbitrary: f)
  case Nil
  show ?case by simp
next
  case (Cons x xs)
  have "foldl (\<lambda>f (i, j). h f i j) f (map (Pair x) ys) = foldl (\<lambda>f j. h f x j) f ys"
    by (simp add: foldl_map)
  with Cons show ?case by simp
qed

lemma isel_simps [simp]:
  "da_time (isel_plev d j) = da_time d"
  "da_lat (isel_plev d j) = da_lat d" "da_lon (isel_plev d j) = da_lon d"
  "da_attrs (isel_plev d j) = da_attrs d"
  "da_plev (isel_time d i) = da_plev d"
  "da_lat (isel_time d i) = da_lat d" "da_lon (isel_time d i) = da_lon d"
  "da_attrs (isel_time d i) = da_attrs d"
  by (simp_all add: isel_plev_def isel_time_def)

lemma isel_time_Axis: "da_time d = Axis ts \<Longrightarrow> da_time (isel_time d i) = Scalar (ts ! i)"
  by (simp add: isel_time_def)

lemma fan_out_static:
  assumes "ds_time ds = None" "encodable data (vc_wps_name var_conf)"
  shows "fan_out lib ds data var_conf start_date end_date interval prefix files =
         Done (foldl (\<lambda>f t. append_file f (prefix @ ustr '':'' @ strftime_ymdh t)
                        (field_slab lib data (vc_wps_name var_conf) t))
                 files (date_range start_date end_date interval))"
proof -
  have "for_each (\<lambda>time files.
            to_wps_interm lib data (vc_wps_name var_conf) prefix files (Some time))
          (date_range start_date end_date interval) files =
        Done (foldl (\<lambda>f t. append_file f (prefix @ ustr '':'' @ strftime_ymdh t)
                        (field_slab lib data (vc_wps_name var_conf) t))
                 files (date_range start_date end_date interval))"
    by (rule for_each_all_Done) (simp add: to_wps_interm_encodable [OF assms(2)])
  then show ?thesis using assms(1) by (simp add: fan_out_def)
qed

lemma fan_out_timed:
  assumes "ds_time ds \<noteq> None" "da_time data = Axis ts" "da_plev data = Axis ps"
    and enc: "\<And>i j. i < length ts \<Longrightarrow> j < length ps \<Longrightarrow>
            encodable (isel_plev (isel_time data i) j) (vc_wps_name var_conf)"
  shows "fan_out lib ds data var_conf start_date end_date interval prefix files =
         Done (foldl (\<lambda>f (i, j). append_file f (prefix @ ustr '':'' @ strftime_ymdh (ts ! i))
                        (field_slab lib (isel_plev (isel_time data i) j) (vc_wps_name var_conf) (ts ! i)))
                 files (List.product [0..<length ts] [0..<length ps]))"
proof -
  define h where "h = (\<lambda>f i j. append_file f (prefix @ ustr '':'' @ strftime_ymdh (ts ! i))
                        (field_slab lib (isel_plev (isel_time data i) j) (vc_wps_name var_conf) (ts ! i)))"
  have one: "to_wps_interm lib (isel_plev (isel_time data i) j) (vc_wps_name var_conf) prefix f None
             = Done (h f i j)" if "i < length ts" "j < length ps" for i j f
  proof -
    have "(case None of None \<Rightarrow> time_values (isel_plev (isel_time data i) j) | Some t \<Rightarrow> Inr t)
          = Inr (ts ! i)"
      by (simp add: time_values_def isel_time_Axis [OF assms(2)])
    from to_wps_interm_encodable [OF enc [OF that] this]
    show ?thesis by (simp add: h_def)
  qed
  have inner: "for_each (\<lambda>i_plev files.
                   to_wps_interm lib (isel_plev (isel_time data i) i_plev)
                     (vc_wps_name var_conf) prefix files None) [0..<length ps] f
               = Done (foldl (\<lambda>f j. h f i j) f [0..<length ps])" if "i < length ts" for i f
    by (rule for_each_all_Done) (simp add: one that)
  have "for_each (\<lambda>i_time files.
            for_each (\<lambda>i_plev files.
                to_wps_interm lib (isel_plev (isel_time data i_time) i_plev)
                  (vc_wps_name var_conf) prefix files None) [0..<length ps] files)
          [0..<length ts] files
        = Done (foldl (\<lambda>f i. foldl (\<lambda>f j. h f i j) f [0..<length ps]) files [0..<length ts])"
    by (rule for_each_all_Done) (simp add: inner)
  then show ?thesis
    using assms(1,2,3) by (simp add: fan_out_def foldl_product h_def)
qed

lemma rows_loop_append:
  "rows_loop lib ds s e iv prefix data (xs @ ys) files =
     (case rows_loop lib ds s e iv prefix data xs files of
        Done files' \<Rightarrow>
          rows_loop lib ds s e iv prefix (foldl (\<lambda>d r. apply_scale r d) data xs) ys files'
      | Raised err files' \<Rightarrow> Raised err files')"
  by (induction xs arbitrary: data files)
     (simp_all add: Let_def split: outcome.splits sum.splits)

lemma hour_of_day: "(t::int) mod 86400 div 3600 = t div 3600 mod 24"
proof -
  have "t mod (3600 * 24) = 3600 * (t div 3600 mod 24) + t mod 3600"
    by (rule zmod_zmult2_eq) simp
  then have "t mod 86400 div 3600 = (3600 * (t div 3600 mod 24) + t mod 3600) div 3600"
    by simp
  also have "\<dots> = t div 3600 mod 24"
    by simp
  finally show ?thesis .
qed

lemma day_of: "(t::int) div 86400 = t div 3600 div 24"
  using zdiv_zmult2_eq [of 24 t 3600] by simp

lemma strftime_hour: "t div 3600 = t' div 3600 \<Longrightarrow> strftime_ymdh t = strftime_ymdh t'"
  by (simp add: strftime_ymdh_def hour_of_day day_of)

lemma encodable_example_static: "encodable example_static (ustr ''TT'')"
  by (simp add: encodable_def example_static_def example_field_def is_axis_def ustr_def attr_def
      ascii_def xlvl_of_def packable_def)

lemma encodable_example_cube:
  assumes "i < 2" "j < 2"
  shows "encodable (isel_plev (isel_time example_cube i) j) (ustr ''TT'')"
proof -
  from assms(2) have "j = 0 \<or> j = 1" by auto
  then show ?thesis
    by (auto simp: encodable_def example_cube_def example_field_def is_axis_def ustr_def attr_def
        ascii_def xlvl_of_def packable_def isel_plev_def isel_time_def)
qed

lemma rows_loop_units_mismatch:
  assumes "map_of (da_attrs (apply_scale var_conf data)) (ustr ''units'') = Some u"
    and "u \<noteq> vc_units var_conf"
  shows "rows_loop lib ds s e iv prefix data (var_conf # out_vars) files =
         Raised (ValueError ''Units mismatch'') files"
  using assms by (simp add: Let_def check_units_def)

lemma for_each_raises_at:
  assumes "for_each body xs files = Done files'" "body x files' = Raised e files''"
  shows "for_each body (xs @ x # ys) files = Raised e files''"
  using assms by (simp add: for_each_append)

lemma encodable_scaled:
  "encodable (apply_scale row_double unit_field) (ustr ''TT2'')"
  "encodable (apply_scale row_triple (apply_scale row_double unit_field)) (ustr ''TT3'')"
  by (simp_all add: encodable_def apply_scale_def row_double_def row_triple_def unit_field_def
      example_static_def example_field_def is_axis_def ustr_def attr_def
      ascii_def xlvl_of_def packable_def)

lemma units_scaled:
  "check_units row_double (apply_scale row_double unit_field) = Inr ()"
  "check_units row_triple (apply_scale row_triple (apply_scale row_double unit_field)) = Inr ()"
  by (simp_all add: check_units_def apply_scale_def row_double_def row_triple_def unit_field_def
      example_static_def example_field_def ustr_def)

lemma one_stamp: "date_range 946684800 946684800 21600 = [946684800]"
  by (simp add: date_range_def)

lemma unit_ds_time: "ds_time unit_ds = None"
  by (simp add: unit_ds_def)

section \<open>The claims\<close>



text \<open>
  Claim C2, as amended. For every non-empty payload \<open>P\<close> of fewer than \<open>2^31\<close> bytes the
  framer appends the 4-byte big-endian length of \<open>P\<close>, then \<open>P\<close> unchanged, then the same
  length again; reading the record back gives the length \<open>L\<close> of \<open>P\<close>, \<open>L\<close> bytes equal
  to \<open>P\<close>, and the trailing length \<open>L\<close>.
\<close>

theorem write_fortran_record_framing:
  assumes "P \<noteq> []" and "length P < 2 ^ 31"
  shows "\<exists>marker. pack_i (int (length P)) = Inr marker \<and> length marker = 4
           \<and> write_fortran_record fp (PyBytes P) = Inr (fp @ marker @ P @ marker)
           \<and> read_fortran_record (marker @ P @ marker) = (int (length P), P, int (length P))"
proof -
  define marker where "marker = be32 (word_of_nat (length P))"
  have "int (length P) < 2 ^ 31" using assms(2) by (simp flip: of_nat_less_iff)
  then have p: "pack_i (int (length P)) = Inr marker"
    by (simp add: pack_i_def marker_def)
  have l: "length marker = 4" by (simp add: marker_def)
  have u: "unpack_i marker = int (length P)" using p by (rule unpack_pack)
  have w: "write_fortran_record fp (PyBytes P) = Inr (fp @ marker @ P @ marker)"
    unfolding marker_def using assms by (rule write_bytes_Inr)
  have r: "read_fortran_record (marker @ P @ marker) = (int (length P), P, int (length P))"
    by (simp add: read_fortran_record_def l u Let_def)
  from p l w r show ?thesis by blast
qed

theorem write_fortran_record_framing_witness:
  "\<exists>marker. pack_i (int (length [5 :: byte, 6])) = Inr marker \<and> length marker = 4
     \<and> write_fortran_record [] (PyBytes [5, 6]) = Inr ([] @ marker @ [5, 6] @ marker)
     \<and> read_fortran_record (marker @ [5, 6] @ marker) = (int (length [5 :: byte, 6]), [5, 6], int (length [5 :: byte, 6]))"
  using write_fortran_record_framing [of "[5, 6]" "[]"] by simp

text \<open>
  The claim as stated fails on the empty payload: what is written is not two length
  markers 0 with nothing between them.
\<close>

theorem write_fortran_record_framing_counterexample:
  "write_fortran_record [] (PyBytes []) = Inr [0, 0, 0, 1, 0, 0, 0, 0, 1]"
  by (simp add: write_fortran_record_def ebind_def pack_i_def be32_def)

text \<open>
  Claim C3, as amended. For every grid the data-slab record holds the full NX by NY grid
  of 4-byte big-endian floats with longitude as the fastest-varying index: the value at
  longitude index \<open>i\<close> and latitude index \<open>j\<close> is float number \<open>j * NX + i\<close> of the record.
  So the values for a fixed latitude across all longitudes are contiguous before the
  stream advances to the next latitude.
\<close>

theorem slab_longitude_fastest:
  assumes "\<not> is_axis (da_time data)" "\<not> is_axis (da_plev data)"
    and "4 * (length (da_lon data) * length (da_lat data)) < 2 ^ 31"
    and "i < length (da_lon data)" "j < length (da_lat data)"
  shows "ebind (slab_record lib data) (write_fortran_record fp) =
           Inr (fp @ framed (record_bytes (slab_record lib data)))
         \<and> length (record_bytes (slab_record lib data)) =
             4 * (length (da_lon data) * length (da_lat data))
         \<and> take 4 (drop (4 * (j * length (da_lon data) + i)) (record_bytes (slab_record lib data))) =
             be32 (astype_f4 lib (da_values data 0 0 j i))"
proof -
  have s: "slab_record lib data =
        Inr (NdF4 (length (da_lon data)) (length (da_lat data))
               (\<lambda>i j. astype_f4 lib (da_values data 0 0 j i)))"
    using assms(1,2) by (rule slab_record_ok)
  have w: "ebind (slab_record lib data) (write_fortran_record fp) =
           Inr (fp @ framed (record_bytes (slab_record lib data)))"
    unfolding s using write_array_framed [OF assms(3), of fp]
    by (simp add: ebind_def record_bytes_def del: tobytes_F.simps)
  have r: "record_bytes (slab_record lib data) =
         spec_slab lib (length (da_lon data)) (length (da_lat data)) (da_values data 0 0)"
    using assms(1,2) by (rule record_bytes_slab)
  have l: "length (record_bytes (slab_record lib data)) =
             4 * (length (da_lon data) * length (da_lat data))"
    unfolding r by simp
  have a: "take 4 (drop (4 * (j * length (da_lon data) + i)) (record_bytes (slab_record lib data))) =
             be32 (astype_f4 lib (da_values data 0 0 j i))"
    unfolding r using assms(4,5) by (rule spec_slab_at)
  from w l a show ?thesis by blast
qed

text \<open>
  The theorem at the last value of the example slice (longitude index 1, latitude
  index 2).
\<close>

theorem slab_longitude_fastest_witness:
  "ebind (slab_record example_lib example_field) (write_fortran_record []) =
           Inr ([] @ framed (record_bytes (slab_record example_lib example_field)))
         \<and> length (record_bytes (slab_record example_lib example_field)) =
             4 * (length (da_lon example_field) * length (da_lat example_field))
         \<and> take 4 (drop (4 * (2 * length (da_lon example_field) + 1))
              (record_bytes (slab_record example_lib example_field))) =
             be32 (astype_f4 example_lib (da_values example_field 0 0 2 1))"
proof -
  have i: "1 < length (da_lon example_field)" and j: "2 < length (da_lat example_field)"
    by (simp_all add: example_field_def)
  show ?thesis
    by (rule slab_longitude_fastest [OF example_hyps(3,4,12) i j])
qed

text \<open>
  The claim as stated has the values of a fixed longitude across all latitudes
  contiguous. In the example slice the second float of the record is the value of the
  first latitude at the second longitude (1.0), not the value of the second latitude at
  the first longitude (10.0).
\<close>

theorem slab_longitude_fastest_counterexample:
  "take 4 (drop 4 (record_bytes (slab_record example_lib example_field))) = [63, 128, 0, 0]
   \<and> be32 (astype_f4 example_lib (da_values example_field 0 0 0 1)) = [63, 128, 0, 0]
   \<and> be32 (astype_f4 example_lib (da_values example_field 0 0 1 0)) = [65, 32, 0, 0]"
proof -
  have "take 4 (drop (4 * (0 * length (da_lon example_field) + 1))
          (spec_slab example_lib (length (da_lon example_field)) (length (da_lat example_field))
             (da_values example_field 0 0))) =
        be32 (astype_f4 example_lib (da_values example_field 0 0 0 1))"
    by (rule spec_slab_at) (simp_all add: example_field_def)
  then have "take 4 (drop 4 (record_bytes (slab_record example_lib example_field))) =
        be32 (astype_f4 example_lib (da_values example_field 0 0 0 1))"
    by (simp add: record_bytes_slab [OF example_hyps(3,4)])
  then show ?thesis by (simp only: example_round)
qed

text \<open>
  Claim C4 asks that each matching row with a finite scale encodes the original values
  of the variable times the factor of that row. The loop over the rows does not start
  each row from the variable: \<open>data\<close> is read from the dataset once, before the loop
  (line 151), and replaced by its product inside the loop (line 167). With two rows for
  the same variable, factors 2 and 3, and a field of ones, the run writes the second
  field-slab from the field times 6: its data slab holds the single-precision pattern of 6.0
  (40 C0 00 00) six times, where the original values times the factor of the second row
  give 3.0 (40 40 00 00). The first row is written as the claim says, and both slabs
  carry the unit of their row.
\<close>

theorem scale_accumulates_over_rows:
  "convert_files scale_lib example_xr [row_double, row_triple] 946684800 946684800 21600
     (ustr ''FILE'') [unit_ds] =
   Done (append_file
          (append_file [] (ustr ''FILE'' @ ustr '':'' @ strftime_ymdh 946684800)
             (field_slab scale_lib (apply_scale row_double unit_field) (ustr ''TT2'') 946684800))
          (ustr ''FILE'' @ ustr '':'' @ strftime_ymdh 946684800)
          (field_slab scale_lib (apply_scale row_triple (apply_scale row_double unit_field))
             (ustr ''TT3'') 946684800))
   \<and> spec_slab scale_lib 2 3
        (filled scale_lib (apply_scale row_triple (apply_scale row_double unit_field))) =
       concat (replicate 6 [0x40, 0xC0, 0, 0])
   \<and> spec_slab scale_lib 2 3 (filled scale_lib (apply_scale row_triple unit_field)) =
       concat (replicate 6 [0x40, 0x40, 0, 0])"
proof -
  have n2: "vc_wps_name row_double = ustr ''TT2''" and n3: "vc_wps_name row_triple = ustr ''TT3''"
    by (simp_all add: row_double_def row_triple_def)
  have f2: "fan_out scale_lib unit_ds (apply_scale row_double unit_field) row_double
              946684800 946684800 21600 (ustr ''FILE'') [] =
            Done (append_file [] (ustr ''FILE'' @ ustr '':'' @ strftime_ymdh 946684800)
               (field_slab scale_lib (apply_scale row_double unit_field) (ustr ''TT2'') 946684800))"
    using fan_out_static [OF unit_ds_time, of "apply_scale row_double unit_field" row_double
        scale_lib 946684800 946684800 21600 "ustr ''FILE''" "[]"] encodable_scaled(1)
    by (simp add: n2 one_stamp)
  have f3: "fan_out scale_lib unit_ds (apply_scale row_triple (apply_scale row_double unit_field))
              row_triple 946684800 946684800 21600 (ustr ''FILE'') files =
            Done (append_file files (ustr ''FILE'' @ ustr '':'' @ strftime_ymdh 946684800)
               (field_slab scale_lib (apply_scale row_triple (apply_scale row_double unit_field))
                  (ustr ''TT3'') 946684800))" for files
    using fan_out_static [OF unit_ds_time,
        of "apply_scale row_triple (apply_scale row_double unit_field)" row_triple
        scale_lib 946684800 946684800 21600 "ustr ''FILE''" files] encodable_scaled(2)
    by (simp add: n3 one_stamp)
  have r: "rows_loop scale_lib unit_ds 946684800 946684800 21600 (ustr ''FILE'') unit_field
     [row_double, row_triple] [] =
   Done (append_file
          (append_file [] (ustr ''FILE'' @ ustr '':'' @ strftime_ymdh 946684800)
             (field_slab scale_lib (apply_scale row_double unit_field) (ustr ''TT2'') 946684800))
          (ustr ''FILE'' @ ustr '':'' @ strftime_ymdh 946684800)
          (field_slab scale_lib (apply_scale row_triple (apply_scale row_double unit_field))
             (ustr ''TT3'') 946684800))"
    by (simp add: Let_def units_scaled f2 f3)
  have w: "be32 0x40C00000 = [0x40, 0xC0, 0, 0]" "be32 0x40400000 = [0x40, 0x40, 0, 0]"
    by (simp_all add: be32_def)
  have s6: "spec_slab scale_lib 2 3
        (filled scale_lib (apply_scale row_triple (apply_scale row_double unit_field))) =
       concat (replicate 6 [0x40, 0xC0, 0, 0])"
    by (simp add: spec_slab_def filled_def apply_scale_def row_double_def row_triple_def
        unit_field_def example_static_def example_field_def scale_lib_def example_lib_def
        astype_f4_def w numeral_2_eq_2 numeral_3_eq_3 eval_nat_numeral)
  have s3: "spec_slab scale_lib 2 3 (filled scale_lib (apply_scale row_triple unit_field)) =
       concat (replicate 6 [0x40, 0x40, 0, 0])"
    by (simp add: spec_slab_def filled_def apply_scale_def row_triple_def
        unit_field_def example_static_def example_field_def scale_lib_def example_lib_def
        astype_f4_def w numeral_2_eq_2 numeral_3_eq_3 eval_nat_numeral)
  have v: "filter (\<lambda>r. vc_var_id r = ustr ''ta'') [row_double, row_triple] = [row_double, row_triple]"
    by (simp add: row_double_def row_triple_def)
  have vars: "ds_variables unit_ds = [(ustr ''ta'', unit_field)]"
    by (simp add: unit_ds_def)
  have sel: "select_time example_xr unit_ds 946684800 946684800 21600 = Inr (Some unit_ds)"
    by (simp add: select_time_def unit_ds_time)
  have pv: "process_variable scale_lib [row_double, row_triple] unit_ds 946684800 946684800 21600
              (ustr ''FILE'') (ustr ''ta'', unit_field) [] =
            rows_loop scale_lib unit_ds 946684800 946684800 21600 (ustr ''FILE'') unit_field
              [row_double, row_triple] []"
    unfolding process_variable_def Let_def fst_conv snd_conv v by simp
  have c: "convert_files scale_lib example_xr [row_double, row_triple] 946684800 946684800 21600
     (ustr ''FILE'') [unit_ds] =
     rows_loop scale_lib unit_ds 946684800 946684800 21600 (ustr ''FILE'') unit_field
       [row_double, row_triple] []"
    by (simp add: convert_files_def convert_single_file_def sel vars pv r del: rows_loop.simps)
  from c r s6 s3 show ?thesis by simp
qed

text \<open>
  Claim C5. Take any run, any input file of it, any variable of that file and any
  matching row, and let the run reach that pair without an exception, the files being
  \<open>files3\<close> at that moment. If the unit attribute of the slice after the scaling step
  of the row differs from the unit the row declares, then \<open>convert_files\<close> raises
  \<open>ValueError("Units mismatch")\<close> with the files still \<open>files3\<close>: nothing has been
  written for the pair, and neither the remaining rows and variables nor the remaining
  input files are processed.
\<close>

theorem units_mismatch_aborts_run:
  assumes before_files:
      "for_each (\<lambda>nc_file files.
           convert_single_file lib xr nc_file model_conf start_date end_date interval prefix files)
         before_files [] = Done files1"
    and selected: "select_time xr nc_file start_date end_date interval = Inr (Some ds)"
    and variables: "ds_variables ds = before_vars @ (var_name, data0) # after_vars"
    and before_vars:
      "for_each (process_variable lib model_conf ds start_date end_date interval prefix)
         before_vars files1 = Done files2"
    and rows: "filter (\<lambda>r. vc_var_id r = var_name) model_conf = before_rows @ var_conf # after_rows"
    and before_rows:
      "rows_loop lib ds start_date end_date interval prefix data0 before_rows files2 = Done files3"
    and units:
      "map_of (da_attrs (apply_scale var_conf (foldl (\<lambda>d r. apply_scale r d) data0 before_rows)))
         (ustr ''units'') = Some u"
    and mismatch: "u \<noteq> vc_units var_conf"
  shows "convert_files lib xr model_conf start_date end_date interval prefix
           (before_files @ nc_file # after_files) =
         Raised (ValueError ''Units mismatch'') files3"
proof -
  have "rows_loop lib ds start_date end_date interval prefix data0
          (before_rows @ var_conf # after_rows) files2 =
        Raised (ValueError ''Units mismatch'') files3"
    unfolding rows_loop_append before_rows
    using rows_loop_units_mismatch [OF units mismatch] by simp
  then have "process_variable lib model_conf ds start_date end_date interval prefix
               (var_name, data0) files2 = Raised (ValueError ''Units mismatch'') files3"
    by (simp add: process_variable_def rows Let_def)
  with before_vars
  have "for_each (process_variable lib model_conf ds start_date end_date interval prefix)
          (before_vars @ (var_name, data0) # after_vars) files1 =
        Raised (ValueError ''Units mismatch'') files3"
    by (rule for_each_raises_at)
  then have "convert_single_file lib xr nc_file model_conf start_date end_date interval prefix files1 =
        Raised (ValueError ''Units mismatch'') files3"
    by (simp add: convert_single_file_def selected variables)
  with before_files show ?thesis
    unfolding convert_files_def by (rule for_each_raises_at)
qed

text \<open>
  The theorem at a run of two input files whose table has one row, without a scale, that
  declares degC for a variable stored in K: the run raises at the first file and has
  written nothing.
\<close>

theorem units_mismatch_aborts_run_witness:
  "convert_files example_lib example_xr [celsius_row] 946684800 946706400 21600 (ustr ''FILE'')
     ([] @ static_ds # [timed_ds]) = Raised (ValueError ''Units mismatch'') []"
proof -
  have a: "for_each (\<lambda>nc_file files.
           convert_single_file example_lib example_xr nc_file [celsius_row] 946684800 946706400 21600
             (ustr ''FILE'') files) [] [] = Done []"
    by simp
  have b: "select_time example_xr static_ds 946684800 946706400 21600 = Inr (Some static_ds)"
    by (simp add: select_time_def static_ds_def)
  have c: "ds_variables static_ds = [] @ (ustr ''ta'', example_static) # []"
    by (simp add: static_ds_def)
  have d: "for_each (process_variable example_lib [celsius_row] static_ds 946684800 946706400 21600
             (ustr ''FILE'')) [] [] = Done []"
    by simp
  have e: "filter (\<lambda>r. vc_var_id r = ustr ''ta'') [celsius_row] = [] @ celsius_row # []"
    by (simp add: celsius_row_def)
  have f: "rows_loop example_lib static_ds 946684800 946706400 21600 (ustr ''FILE'') example_static [] []
             = Done []"
    by simp
  have g: "map_of (da_attrs (apply_scale celsius_row (foldl (\<lambda>d r. apply_scale r d) example_static [])))
         (ustr ''units'') = Some (ustr ''K'')"
    by (simp add: apply_scale_def celsius_row_def example_static_def example_field_def ustr_def)
  have h: "ustr ''K'' \<noteq> vc_units celsius_row"
    by (simp add: celsius_row_def ustr_def)
  show ?thesis by (rule units_mismatch_aborts_run [OF a b c d e f g h])
qed

text \<open>
  Claim C6. For every mapped variable with a time axis of size T and a pressure-level
  axis of size M, in a dataset with a time dimension, whose slices can all be encoded,
  the pipeline appends exactly T * M field-slabs: one for each pair of a time index and a
  level index, the pairs taken with the time index outermost and the level index
  innermost. The slab of the pair \<open>(i, j)\<close> goes to the file of the valid hour of time
  \<open>i\<close>, so the slabs appear in the files in time-major, level-minor order.
\<close>

theorem fan_out_time_major:
  assumes "ds_time ds \<noteq> None" "da_time data = Axis ts" "da_plev data = Axis ps"
    and "\<forall>i<length ts. \<forall>j<length ps.
            encodable (isel_plev (isel_time data i) j) (vc_wps_name var_conf)"
  shows "fan_out lib ds data var_conf start_date end_date interval prefix files =
         Done (foldl (\<lambda>f (i, j). append_file f (prefix @ ustr '':'' @ strftime_ymdh (ts ! i))
                        (field_slab lib (isel_plev (isel_time data i) j) (vc_wps_name var_conf) (ts ! i)))
                 files (List.product [0..<length ts] [0..<length ps]))
         \<and> length (List.product [0..<length ts] [0..<length ps]) = length ts * length ps
         \<and> List.product [0..<length ts] [0..<length ps] =
             concat (map (\<lambda>i. map (\<lambda>j. (i, j)) [0..<length ps]) [0..<length ts])"
proof -
  have "fan_out lib ds data var_conf start_date end_date interval prefix files =
         Done (foldl (\<lambda>f (i, j). append_file f (prefix @ ustr '':'' @ strftime_ymdh (ts ! i))
                        (field_slab lib (isel_plev (isel_time data i) j) (vc_wps_name var_conf) (ts ! i)))
                 files (List.product [0..<length ts] [0..<length ps]))"
    using assms(4) by (intro fan_out_timed [OF assms(1,2,3)]) simp
  moreover have "List.product xs ys = concat (map (\<lambda>i. map (\<lambda>j. (i, j)) ys) xs)"
    for xs :: "nat list" and ys :: "nat list"
    by (induction xs) simp_all
  moreover have "length (List.product [0..<length ts] [0..<length ps]) = length ts * length ps"
    by simp
  ultimately show ?thesis by blast
qed

text \<open>
  The theorem at a variable with two times (2000-01-01 at 00:00 and at 06:00) and two
  levels (850 hPa and 500 hPa).
\<close>

theorem fan_out_time_major_witness:
  "fan_out example_lib timed_ds example_cube example_row 946684800 946706400 21600 (ustr ''FILE'') [] =
         Done (foldl (\<lambda>f (i, j). append_file f (ustr ''FILE'' @ ustr '':'' @ strftime_ymdh ([946684800, 946706400] ! i))
                        (field_slab example_lib (isel_plev (isel_time example_cube i) j)
                           (vc_wps_name example_row) ([946684800, 946706400] ! i)))
                 [] (List.product [0..<length [946684800, 946706400 :: int]] [0..<length [85000, 50000 :: real]]))
         \<and> length (List.product [0..<length [946684800, 946706400 :: int]] [0..<length [85000, 50000 :: real]])
              = length [946684800, 946706400 :: int] * length [85000, 50000 :: real]
         \<and> List.product [0..<length [946684800, 946706400 :: int]] [0..<length [85000, 50000 :: real]] =
             concat (map (\<lambda>i. map (\<lambda>j. (i, j)) [0..<length [85000, 50000 :: real]])
                       [0..<length [946684800, 946706400 :: int]])"
proof -
  have a: "ds_time timed_ds \<noteq> None" by (simp add: timed_ds_def)
  have b: "da_time example_cube = Axis [946684800, 946706400]"
    and c: "da_plev example_cube = Axis [85000, 50000]"
    by (simp_all add: example_cube_def)
  have d: "\<forall>i<length [946684800, 946706400 :: int]. \<forall>j<length [85000, 50000 :: real].
            encodable (isel_plev (isel_time example_cube i) j) (vc_wps_name example_row)"
    by (simp add: encodable_example_cube example_row_def)
  show ?thesis by (rule fan_out_time_major [OF a b c d])
qed

text \<open>
  Claim C7, as amended. For every mapped variable of a dataset that has no time
  dimension, if the variable can be encoded, the pipeline appends one field-slab for each
  of the K time stamps of the requested range \<open>[start, end, interval]\<close>, in the order of
  the stamps. All K slabs carry the same geometry and the same slab values; the valid
  time in the header of the k-th slab, and the file it goes to, are the k-th stamp cut to
  the hour, so two stamps of the same hour give the same header.
\<close>

theorem static_field_per_stamp:
  assumes "ds_time ds = None" "encodable data (vc_wps_name var_conf)" "0 < interval"
  shows "fan_out lib ds data var_conf start_date end_date interval prefix files =
         Done (foldl (\<lambda>f t. append_file f (prefix @ ustr '':'' @ strftime_ymdh t)
                        (framed (be32 5)
                         @ framed (spec_header lib (strftime_ymdh t @ ustr '':00:00'')
                             (vc_wps_name var_conf) (attr data ''units'') (attr data ''standard_name'')
                             (xlvl_of data) (length (da_lon data)) (length (da_lat data)))
                         @ framed (spec_geometry lib (da_lat data ! 0) (da_lon data ! 0)
                             (da_lat data ! 1 - da_lat data ! 0) (da_lon data ! 1 - da_lon data ! 0))
                         @ framed (be32 0)
                         @ framed (spec_slab lib (length (da_lon data)) (length (da_lat data))
                             (filled lib data))))
                 files (date_range start_date end_date interval))
         \<and> (\<forall>t t'. t div 3600 = t' div 3600 \<longrightarrow> strftime_ymdh t = strftime_ymdh t')"
proof -
  have "strftime_ymdh t = strftime_ymdh t'" if "t div 3600 = t' div 3600" for t t'
    using that by (rule strftime_hour)
  then have "\<forall>t t'. t div 3600 = t' div 3600 \<longrightarrow> strftime_ymdh t = strftime_ymdh t'"
    by blast
  moreover note fan_out_static [OF assms(1,2), of lib start_date end_date interval prefix files]
  ultimately show ?thesis
    unfolding field_slab_def by blast
qed

text \<open>
  The theorem at the example slice without a time coordinate, requested from 2000-01-01
  00:00 to 06:00 every six hours: two stamps, two field-slabs.
\<close>

theorem static_field_per_stamp_witness:
  "fan_out example_lib static_ds example_static example_row 946684800 946706400 21600 (ustr ''FILE'') [] =
         Done (foldl (\<lambda>f t. append_file f (ustr ''FILE'' @ ustr '':'' @ strftime_ymdh t)
                        (framed (be32 5)
                         @ framed (spec_header example_lib (strftime_ymdh t @ ustr '':00:00'')
                             (vc_wps_name example_row) (attr example_static ''units'')
                             (attr example_static ''standard_name'')
                             (xlvl_of example_static) (length (da_lon example_static))
                             (length (da_lat example_static)))
                         @ framed (spec_geometry example_lib (da_lat example_static ! 0)
                             (da_lon example_static ! 0)
                             (da_lat example_static ! 1 - da_lat example_static ! 0)
                             (da_lon example_static ! 1 - da_lon example_static ! 0))
                         @ framed (be32 0)
                         @ framed (spec_slab example_lib (length (da_lon example_static))
                             (length (da_lat example_static)) (filled example_lib example_static))))
                 [] (date_range 946684800 946706400 21600))
   \<and> date_range 946684800 946706400 21600 = [946684800, 946706400]"
proof -
  have a: "ds_time static_ds = None" by (simp add: static_ds_def)
  have b: "encodable example_static (vc_wps_name example_row)"
    by (simp add: encodable_example_static example_row_def)
  have c: "(0::int) < 21600" by simp
  have d: "date_range 946684800 946706400 21600 = [946684800, 946706400]"
    by (simp add: date_range_def numeral_2_eq_2)
  from static_field_per_stamp [OF a b c, of example_lib 946684800 946706400 "ustr ''FILE''" "[]"] d
  show ?thesis by blast
qed

text \<open>
  The claim as stated has each of the K slabs carry a distinct valid time, for every
  variable without a time dimension. With an interval of thirty minutes the stamps
  00:00 and 00:30 give two field-slabs with the same header 2000-01-01_00:00:00,
  appended to the same file. And the branch is chosen by the dimensions of the dataset:
  for a variable without a time dimension in a dataset that has one, the pipeline raises
  \<open>AttributeError\<close> and writes nothing.
\<close>

theorem static_field_per_stamp_counterexample:
  "date_range 946684800 946686600 1800 = [946684800, 946686600]
   \<and> fan_out example_lib static_ds example_static example_row 946684800 946686600 1800 (ustr ''FILE'') [] =
       Done (append_file
               (append_file [] (ustr ''FILE'' @ ustr '':'' @ strftime_ymdh 946684800)
                  (field_slab example_lib example_static (ustr ''TT'') 946684800))
               (ustr ''FILE'' @ ustr '':'' @ strftime_ymdh 946686600)
               (field_slab example_lib example_static (ustr ''TT'') 946686600))
   \<and> strftime_ymdh 946684800 @ ustr '':00:00'' = strftime_ymdh 946686600 @ ustr '':00:00''
   \<and> field_slab example_lib example_static (ustr ''TT'') 946684800
       = field_slab example_lib example_static (ustr ''TT'') 946686600
   \<and> fan_out example_lib timed_ds example_static example_row 946684800 946706400 21600 (ustr ''FILE'') [] =
       Raised AttributeError []"
proof -
  have d: "date_range 946684800 946686600 1800 = [946684800, 946686600]"
    by (simp add: date_range_def numeral_2_eq_2)
  have a: "ds_time static_ds = None" by (simp add: static_ds_def)
  have b: "encodable example_static (vc_wps_name example_row)"
    by (simp add: encodable_example_static example_row_def)
  have f: "fan_out example_lib static_ds example_static example_row 946684800 946686600 1800 (ustr ''FILE'') [] =
       Done (append_file
               (append_file [] (ustr ''FILE'' @ ustr '':'' @ strftime_ymdh 946684800)
                  (field_slab example_lib example_static (ustr ''TT'') 946684800))
               (ustr ''FILE'' @ ustr '':'' @ strftime_ymdh 946686600)
               (field_slab example_lib example_static (ustr ''TT'') 946686600))"
    unfolding fan_out_static [OF a b] d by (simp add: example_row_def)
  have s: "strftime_ymdh 946684800 = strftime_ymdh 946686600"
    by (rule strftime_hour) simp
  have e: "field_slab example_lib example_static (ustr ''TT'') 946684800
       = field_slab example_lib example_static (ustr ''TT'') 946686600"
    by (simp add: field_slab_def s)
  have r: "fan_out example_lib timed_ds example_static example_row 946684800 946706400 21600 (ustr ''FILE'') [] =
       Raised AttributeError []"
    by (simp add: fan_out_def timed_ds_def example_static_def example_field_def)
  from d f s e r show ?thesis by simp
qed

text \<open>
  Claim C8, as amended. For every declared width \<open>W\<close> and every source string \<open>s\<close> whose
  first \<open>W\<close> characters are ASCII, the encoded field is exactly \<open>W\<close> ASCII bytes: the
  characters of \<open>s\<close>, then spaces, when \<open>s\<close> has at most \<open>W\<close> characters, and the first \<open>W\<close>
  characters of \<open>s\<close>, with no error, when it has more. A non-ASCII character among the
  first \<open>W\<close> makes the encoder raise \<open>UnicodeEncodeError\<close>.
\<close>

theorem pad_fixed_width:
  "(list_all (\<lambda>c. c < 128) (take W s) \<longrightarrow>
      (\<exists>b. pad s W = Inr b \<and> length b = W \<and> list_all (\<lambda>x. x < 128) b
         \<and> (length s \<le> W \<longrightarrow> b = map of_nat s @ replicate (W - length s) 32)
         \<and> (W < length s \<longrightarrow> b = map of_nat (take W s))))
   \<and> (\<not> list_all (\<lambda>c. c < 128) (take W s) \<longrightarrow> pad s W = Inl UnicodeEncodeError)"
proof (cases "list_all (\<lambda>c. c < 128) (take W s)")
  case True
  define b :: "byte list" where "b = map of_nat (take W s) @ replicate (W - length s) 32"
  have p: "pad s W = Inr b" using True by (simp add: pad_eq b_def)
  have l: "length b = W" using p by (rule length_pad)
  have "\<And>c. c \<in> set (take W s) \<Longrightarrow> (word_of_nat c :: byte) < 128"
  proof -
    fix c assume "c \<in> set (take W s)"
    with True have "c < 128" by (simp add: list_all_iff)
    then show "(word_of_nat c :: byte) < 128"
      by (simp add: word_less_nat_alt unat_of_nat take_bit_nat_eq_self)
  qed
  then have a: "list_all (\<lambda>x. x < 128) b"
    by (auto simp: b_def list_all_iff)
  have s1: "length s \<le> W \<longrightarrow> b = map of_nat s @ replicate (W - length s) 32"
    by (simp add: b_def)
  have s2: "W < length s \<longrightarrow> b = map of_nat (take W s)"
    by (simp add: b_def)
  from True p l a s1 s2 show ?thesis by blast
next
  case False
  then show ?thesis by (simp add: pad_eq)
qed

theorem pad_fixed_width_witness:
  "list_all (\<lambda>c. c < 128) (take 3 [75 :: nat])
   \<and> pad [75] 3 = Inr [75, 32, 32]
   \<and> list_all (\<lambda>c. c < 128) (take 2 [107 :: nat, 103, 176])
   \<and> pad [107, 103, 176] 2 = Inr [107, 103]
   \<and> \<not> list_all (\<lambda>c. c < 128) (take 3 [107 :: nat, 103, 176])
   \<and> pad [107, 103, 176] 3 = Inl UnicodeEncodeError"
  using pad_fixed_width [of 3 "[75]"] pad_fixed_width [of 2 "[107, 103, 176]"]
    pad_fixed_width [of 3 "[107, 103, 176]"]
  by (simp add: numeral_2_eq_2)

text \<open>The claim as stated fails on a unit string such as the degree sign followed by
  \<open>C\<close>: the field is not encoded, the encoder raises.\<close>

theorem pad_fixed_width_counterexample:
  "pad [176, 67] 25 = Inl UnicodeEncodeError"
  by (simp add: pad_def encode_ascii_def ljust_def)

text \<open>
  Claim C9, as amended. The encoder makes no check of the spacing. For every grid,
  uniform or not, whose slice can be encoded (coordinates strictly increasing, at least
  two on each axis), no irregular-grid error is raised: the slice is written, and its
  grid-geometry record carries the single deltas \<open>lat[1] - lat[0]\<close> and
  \<open>lon[1] - lon[0]\<close> taken from the first two coordinate values of each axis.
\<close>

theorem irregular_grid_is_encoded:
  assumes "(case time of None \<Rightarrow> time_values data | Some t \<Rightarrow> Inr t) = Inr t"
    and "\<not> is_axis (da_time data)" "\<not> is_axis (da_plev data)"
    and "da_plev data = Absent \<longrightarrow> map_of (da_attrs data) (ustr ''plev'') = None"
    and "packable (xlvl_of data)"
    and "ascii (take 9 var_name)"
    and "getattr data ''units'' = Inr units" "ascii (take 25 units)"
    and "getattr data ''standard_name'' = Inr desc" "ascii (take 46 desc)"
    and "da_lat data = lat0 # lat1 # lats"
    and "da_lon data = lon0 # lon1 # lons"
    and "4 * (length (da_lon data) * length (da_lat data)) < 2 ^ 31"
    and "packable lat0" "packable lon0" "packable (lat1 - lat0)" "packable (lon1 - lon0)"
    and "sorted (da_lat data)" "distinct (da_lat data)"
    and "sorted (da_lon data)" "distinct (da_lon data)"
  shows "\<exists>before after.
           to_wps_interm lib data var_name prefix files time =
             Done (append_file files (prefix @ ustr '':'' @ strftime_ymdh t)
               (before @ framed (spec_geometry lib lat0 lon0 (lat1 - lat0) (lon1 - lon0)) @ after))"
proof -
  from plev_packed [OF assms(3,4,5)] obtain plev where
    p: "plev_of data = Inr plev" "pack_field lib Ff plev = Inr (be32 (round_f4 lib (xlvl_of data)))"
    by blast
  define before where "before = framed (be32 5)
     @ framed (spec_header lib (strftime_ymdh t @ ustr '':00:00'') var_name units desc (xlvl_of data)
         (length (da_lon data)) (length (da_lat data)))"
  define after where "after = framed (be32 0)
     @ framed (spec_slab lib (length (da_lon data)) (length (da_lat data)) (filled lib data))"
  from to_wps_interm_Done [OF assms(1) p assms(2,3) assms(6-21), of prefix files]
  have "to_wps_interm lib data var_name prefix files time =
             Done (append_file files (prefix @ ustr '':'' @ strftime_ymdh t)
               (before @ framed (spec_geometry lib lat0 lon0 (lat1 - lat0) (lon1 - lon0)) @ after))"
    by (simp add: before_def after_def)
  then show ?thesis by blast
qed

text \<open>
  The theorem at the example slice, whose latitudes are 10, 20 and 40.
\<close>

theorem irregular_grid_is_encoded_witness:
  "\<exists>before after.
     to_wps_interm example_lib example_field (ustr ''TT'') (ustr ''FILE'') [] None =
       Done (append_file [] (ustr ''FILE'' @ ustr '':'' @ strftime_ymdh 946684800)
         (before @ framed (spec_geometry example_lib 10 0 (20 - 10) (1 - 0)) @ after))"
proof -
  have a: "da_plev example_field = Absent \<longrightarrow> map_of (da_attrs example_field) (ustr ''plev'') = None"
    by (simp add: example_plev)
  show ?thesis
    by (rule irregular_grid_is_encoded
          [OF example_time example_hyps(3,4) a example_plev(3) example_hyps(5-20)])
qed

text \<open>
  The claim as stated fails on the example slice: its latitudes 10, 20, 40 are not
  evenly spaced, and the encoder returns normally, having written a geometry record
  with delta-latitude 10.
\<close>

theorem irregular_grid_is_encoded_counterexample:
  "da_lat example_field = [10, 20, 40]
   \<and> to_wps_interm example_lib example_field (ustr ''TT'') (ustr ''FILE'') [] None =
       Done (append_file [] (ustr ''FILE'' @ ustr '':'' @ strftime_ymdh 946684800)
         (framed (be32 5)
          @ framed (spec_header example_lib (strftime_ymdh 946684800 @ ustr '':00:00'') (ustr ''TT'')
              (ustr ''K'') (ustr ''air_temperature'') 200100 2 3)
          @ framed (spec_geometry example_lib 10 0 (20 - 10) (1 - 0))
          @ framed (be32 0)
          @ framed (spec_slab example_lib 2 3 (filled example_lib example_field))))"
proof -
  have l: "da_lat example_field = [10, 20, 40]" by (simp add: example_field_def)
  have n: "length (da_lon example_field) = 2" "length (da_lat example_field) = 3"
    by (simp_all add: example_field_def)
  have p: "pack_field example_lib Ff (VInt 200100) = Inr (be32 (round_f4 example_lib 200100))"
    by (rule pack_field_surface)
  from to_wps_interm_Done [OF example_time example_hyps(2) p example_hyps(3-20),
      of "ustr ''FILE''" "[]"]
  have "to_wps_interm example_lib example_field (ustr ''TT'') (ustr ''FILE'') [] None =
       Done (append_file [] (ustr ''FILE'' @ ustr '':'' @ strftime_ymdh 946684800)
         (framed (be32 5)
          @ framed (spec_header example_lib (strftime_ymdh 946684800 @ ustr '':00:00'') (ustr ''TT'')
              (ustr ''K'') (ustr ''air_temperature'') 200100 2 3)
          @ framed (spec_geometry example_lib 10 0 (20 - 10) (1 - 0))
          @ framed (be32 0)
          @ framed (spec_slab example_lib 2 3 (filled example_lib example_field))))"
    by (simp only: n)
  with l show ?thesis by blast
qed



end
